theory Spec2Isabelle
  imports Complex_Main "HOL-Library.Sublist"
begin

section \<open>Delivery time prediction API (main.py)\<close>

text \<open>
  Python floats are modelled as real numbers with exact arithmetic: the embedding follows
  the formulas of the source and leaves binary rounding error and non-finite values out.
  One consequence concerns \<open>calculate_distance\<close>: in binary arithmetic the haversine term
  can exceed 1 by a rounding error for nearly antipodal points, \<open>math.sqrt\<close> then raises
  and the endpoint answers with status 500. That branch is part of the definitions below,
  and the statements about the endpoint are made for either outcome of
  \<open>calculate_distance\<close>, not only for the one exact arithmetic produces.
  Everything the process loads or calls from outside (the pickled model, the fitted
  encoder, the canonical feature list, the OpenCage service, the clock) is a field of an
  environment record, so every statement below holds for any such artifact.
\<close>

subsection \<open>Exceptions\<close>

text \<open>
  \<open>HTTPException status detail\<close> is FastAPI's exception; \<open>PyException msg\<close> stands for any
  other Python exception, \<open>msg\<close> being its \<open>str(e)\<close>.
\<close>

datatype exn = HTTPException int string | PyException string

subsection \<open>Numeric helpers of the Python runtime\<close>

text \<open>\<open>round(x)\<close> to an integer, ties going to the even neighbour.\<close>

definition round_half_even :: "real \<Rightarrow> int" where
  "round_half_even y =
     (let f = \<lfloor>y\<rfloor>; r = y - of_int f
      in if r < 1 / 2 then f
         else if 1 / 2 < r then f + 1
         else if even f then f else f + 1)"

text \<open>\<open>round(x, ndigits)\<close> for a non-negative \<open>ndigits\<close>.\<close>

definition py_round :: "real \<Rightarrow> nat \<Rightarrow> real" where
  "py_round x ndigits = of_int (round_half_even (x * 10 ^ ndigits)) / 10 ^ ndigits"

text \<open>\<open>math.radians\<close>.\<close>

definition radians :: "real \<Rightarrow> real" where
  "radians x = x * pi / 180"

text \<open>\<open>math.sqrt\<close> raises \<open>ValueError\<close> on a negative argument.\<close>

definition py_sqrt :: "real \<Rightarrow> exn + real" where
  "py_sqrt x = (if x < 0 then Inl (PyException ''math domain error'') else Inr (sqrt x))"

text \<open>\<open>math.atan2 y x\<close>: the angle of the point \<open>(x, y)\<close>, in \<open>(-pi, pi]\<close>.\<close>

definition atan2 :: "real \<Rightarrow> real \<Rightarrow> real" where
  "atan2 y x =
     (if 0 < x then arctan (y / x)
      else if x < 0 then (if 0 \<le> y then arctan (y / x) + pi else arctan (y / x) - pi)
      else if 0 < y then pi / 2
      else if y < 0 then - (pi / 2)
      else 0)"

subsection \<open>Geodesy: \<open>calculate_distance\<close>\<close>

text \<open>The haversine term \<open>a\<close> of \<open>calculate_distance\<close>, arguments in degrees.\<close>

definition haversine_a :: "real \<Rightarrow> real \<Rightarrow> real \<Rightarrow> real \<Rightarrow> real" where
  "haversine_a lat1 lon1 lat2 lon2 =
     (let lat1 = radians lat1; lon1 = radians lon1;
          lat2 = radians lat2; lon2 = radians lon2;
          dlat = lat2 - lat1;
          dlon = lon2 - lon1
      in (sin (dlat / 2))\<^sup>2 + cos lat1 * cos lat2 * (sin (dlon / 2))\<^sup>2)"

definition calculate_distance :: "real \<Rightarrow> real \<Rightarrow> real \<Rightarrow> real \<Rightarrow> exn + real" where
  "calculate_distance lat1 lon1 lat2 lon2 =
     (let R = 6371;
          a = haversine_a lat1 lon1 lat2 lon2
      in case py_sqrt a of
           Inl e \<Rightarrow> Inl e
         | Inr sa \<Rightarrow>
             (case py_sqrt (1 - a) of
                Inl e \<Rightarrow> Inl e
              | Inr sb \<Rightarrow>
                  (let c = 2 * atan2 sa sb;
                       distance = R * c
                   in Inr (py_round distance 2))))"

text \<open>\<open>np.clip(x, lo, hi)\<close>: \<open>minimum(maximum(x, lo), hi)\<close>.\<close>

definition np_clip :: "real \<Rightarrow> real \<Rightarrow> real \<Rightarrow> real" where
  "np_clip x lo hi = min (max x lo) hi"

text \<open>Decimal digits of a natural number, and the format \<open>f"{x:.2f}"\<close>.\<close>

definition digit_char :: "nat \<Rightarrow> char" where
  "digit_char n = ''0123456789'' ! (n mod 10)"

fun str_nat :: "nat \<Rightarrow> string" where
  "str_nat n = (if n < 10 then [digit_char n] else str_nat (n div 10) @ [digit_char (n mod 10)])"

declare str_nat.simps [simp del]

definition format_2f :: "real \<Rightarrow> string" where
  "format_2f x =
     (let n = nat \<bar>round_half_even (x * 100)\<bar>
      in (if x < 0 then ''-'' else []) @ str_nat (n div 100) @ ''.''
         @ [digit_char (n mod 100 div 10), digit_char (n mod 10)])"

subsection \<open>Request models\<close>

datatype weather = Sunny | Stormy | Cloudy | Fog | Sandstorms | Windy
datatype traffic = Low | Medium | High | Jam
datatype order_type = Snack | Meal | Drinks | Buffet
datatype vehicle = motorcycle | scooter | electric_scooter
datatype city_class = Urban | Semi_Urban | Metropolitian
datatype festival_flag = Yes | No

text \<open>The string each \<open>Literal\<close> value is in the request and in the feature dictionary.\<close>

fun weather_str :: "weather \<Rightarrow> string" where
  "weather_str Sunny = ''Sunny''"
| "weather_str Stormy = ''Stormy''"
| "weather_str Cloudy = ''Cloudy''"
| "weather_str Fog = ''Fog''"
| "weather_str Sandstorms = ''Sandstorms''"
| "weather_str Windy = ''Windy''"

fun traffic_str :: "traffic \<Rightarrow> string" where
  "traffic_str Low = ''Low''"
| "traffic_str Medium = ''Medium''"
| "traffic_str High = ''High''"
| "traffic_str Jam = ''Jam''"

fun order_type_str :: "order_type \<Rightarrow> string" where
  "order_type_str Snack = ''Snack''"
| "order_type_str Meal = ''Meal''"
| "order_type_str Drinks = ''Drinks''"
| "order_type_str Buffet = ''Buffet''"

fun vehicle_str :: "vehicle \<Rightarrow> string" where
  "vehicle_str motorcycle = ''motorcycle''"
| "vehicle_str scooter = ''scooter''"
| "vehicle_str electric_scooter = ''electric_scooter''"

fun city_str :: "city_class \<Rightarrow> string" where
  "city_str Urban = ''Urban''"
| "city_str Semi_Urban = ''Semi-Urban''"
| "city_str Metropolitian = ''Metropolitian''"

fun festival_str :: "festival_flag \<Rightarrow> string" where
  "festival_str Yes = ''Yes''"
| "festival_str No = ''No''"

text \<open>
  \<open>DeliveryRequest\<close> and \<open>AddressBasedRequest\<close> declare the same eighteen fields besides
  their locations; the record \<open>order_context\<close> holds them once, and each request class
  extends it with its own location fields.
\<close>

record order_context =
  delivery_person_age :: real
  delivery_person_ratings :: real
  weather_conditions :: weather
  road_traffic_density :: traffic
  type_of_order :: order_type
  type_of_vehicle :: vehicle
  city :: city_class
  festival :: festival_flag
  day :: int
  month :: int
  day_of_week :: int
  is_weekend :: int
  hour :: int
  is_rush_hour :: int
  vehicle_condition :: int
  multiple_deliveries :: int
  order_prepare_time :: real
  city_code :: string

record DeliveryRequest = order_context +
  restaurant_latitude :: real
  restaurant_longitude :: real
  delivery_latitude :: real
  delivery_longitude :: real

record AddressBasedRequest = order_context +
  restaurant_address :: string
  delivery_address :: string
  opencage_api_key :: string

text \<open>The \<open>Field\<close> constraints (\<open>ge\<close>, \<open>le\<close>, \<open>min_length\<close>, \<open>max_length\<close>) of the shared fields.\<close>

definition order_context_valid :: "'a order_context_scheme \<Rightarrow> bool" where
  "order_context_valid r =
     (18 \<le> delivery_person_age r \<and> delivery_person_age r \<le> 65
      \<and> 1 \<le> delivery_person_ratings r \<and> delivery_person_ratings r \<le> 5
      \<and> 1 \<le> day r \<and> day r \<le> 31
      \<and> 1 \<le> month r \<and> month r \<le> 12
      \<and> 0 \<le> day_of_week r \<and> day_of_week r \<le> 6
      \<and> 0 \<le> is_weekend r \<and> is_weekend r \<le> 1
      \<and> 0 \<le> hour r \<and> hour r \<le> 23
      \<and> 0 \<le> is_rush_hour r \<and> is_rush_hour r \<le> 1
      \<and> 0 \<le> vehicle_condition r \<and> vehicle_condition r \<le> 3
      \<and> 0 \<le> multiple_deliveries r \<and> multiple_deliveries r \<le> 4
      \<and> 0 \<le> order_prepare_time r \<and> order_prepare_time r \<le> 180
      \<and> 3 \<le> length (city_code r) \<and> length (city_code r) \<le> 4)"

definition DeliveryRequest_valid :: "DeliveryRequest \<Rightarrow> bool" where
  "DeliveryRequest_valid r =
     (- 90 \<le> restaurant_latitude r \<and> restaurant_latitude r \<le> 90
      \<and> - 180 \<le> restaurant_longitude r \<and> restaurant_longitude r \<le> 180
      \<and> - 90 \<le> delivery_latitude r \<and> delivery_latitude r \<le> 90
      \<and> - 180 \<le> delivery_longitude r \<and> delivery_longitude r \<le> 180
      \<and> order_context_valid r)"

definition AddressBasedRequest_valid :: "AddressBasedRequest \<Rightarrow> bool" where
  "AddressBasedRequest_valid r = order_context_valid r"

subsection \<open>Data frames, responses and the environment\<close>

text \<open>
  A one-row \<open>DataFrame\<close>: its columns in order, each with the value of the row. A cell
  is a number or a string (a categorical field before it is encoded).
\<close>

datatype cell = Num real | Str string

type_synonym dataframe = "(string \<times> cell) list"

record coordinates =
  latitude :: real
  longitude :: real

record geocoded =
  restaurant :: coordinates
  delivery :: coordinates

record breakdown =
  preparation_time_minutes :: real
  estimated_delivery_time_minutes :: real
  average_speed_kmh :: real

text \<open>The \<open>conditions\<close> dictionary of the response; its keys carry the prefix \<open>cond_\<close> here.\<close>

record conditions =
  cond_weather :: string
  cond_traffic :: string
  cond_is_rush_hour :: bool
  cond_is_weekend :: bool
  cond_festival :: string
  cond_order_type :: string

text \<open>
  The response dictionary. \<open>geocoded_coordinates\<close> is \<open>None\<close> while the key is absent: only
  the address endpoint adds it.
\<close>

record response =
  success :: bool
  predicted_delivery_time_minutes :: real
  calculated_distance_km :: real
  breakdown :: breakdown
  conditions :: conditions
  order_date :: string
  geocoded_coordinates :: "geocoded option"

text \<open>
  What \<open>response.json()\<close> holds for the geocoder: no \<open>results\<close> key, or the list under it,
  each entry with its \<open>geometry\<close> coordinates when it has them.
\<close>

datatype geocode_json = NoResultsKey | Results "coordinates option list"

record http_response =
  status_code :: int
  json :: "string + geocode_json"

text \<open>
  The artifact and the outside world. A result \<open>Inl msg\<close> of one of these functions is a
  Python exception raised by the library, \<open>msg\<close> its \<open>str(e)\<close>:
  \<^item> \<open>model_predict df\<close> is \<open>model.predict(df)[0]\<close>;
  \<^item> \<open>encoder_feature_names_in\<close> and \<open>encoder_transform\<close> are the fitted encoder, the
    latter from the row of categorical values to their codes;
  \<^item> \<open>feature_columns\<close> is the canonical feature-name list of the artifact;
  \<^item> \<open>requests_get address key\<close> is the \<open>requests.get\<close> call of \<open>geocode_address\<close>
    (\<open>Inl\<close>: timeout or connection failure);
  \<^item> \<open>datetime_now\<close> is the formatted clock reading.
\<close>

record env =
  model_predict :: "dataframe \<Rightarrow> string + real"
  encoder_feature_names_in :: "string list"
  encoder_transform :: "cell list \<Rightarrow> string + real list"
  feature_columns :: "string list"
  requests_get :: "string \<Rightarrow> string \<Rightarrow> string + http_response"
  datetime_now :: string

text \<open>The calls a handler makes to the outside, in order.\<close>

datatype event = HttpGet string string | ModelPredict dataframe

subsection \<open>Feature assembly: \<open>prepare_features_for_prediction\<close>\<close>

text \<open>\<open>input_df.columns\<close>, \<open>input_df[col] = v\<close> and \<open>input_df[cols]\<close> on a one-row frame.\<close>

definition df_columns :: "dataframe \<Rightarrow> string list" where
  "df_columns df = map fst df"

text \<open>Assignment replaces the value of an existing column and appends a new one at the end.\<close>

fun df_set :: "dataframe \<Rightarrow> string \<Rightarrow> cell \<Rightarrow> dataframe" where
  "df_set [] col v = [(col, v)]"
| "df_set ((k, x) # rest) col v =
     (if k = col then (k, v) # rest else (k, x) # df_set rest col v)"

text \<open>
  Selection keeps the order of the requested names and raises \<open>KeyError\<close> on a missing one
  (the message of pandas is shortened to the first missing name).
\<close>

fun df_select :: "dataframe \<Rightarrow> string list \<Rightarrow> string + dataframe" where
  "df_select df [] = Inr []"
| "df_select df (col # cols) =
     (case map_of df col of
        None \<Rightarrow> Inl (''KeyError: '' @ col)
      | Some v \<Rightarrow>
          (case df_select df cols of
             Inl e \<Rightarrow> Inl e
           | Inr rest \<Rightarrow> Inr ((col, v) # rest)))"

fun df_set_many :: "dataframe \<Rightarrow> (string \<times> cell) list \<Rightarrow> dataframe" where
  "df_set_many df [] = df"
| "df_set_many df ((col, v) # kvs) = df_set_many (df_set df col v) kvs"

text \<open>
  The two derived quantities at the head of \<open>prepare_features_for_prediction\<close>; \<open>data\<close>,
  the dictionary of the request's fields, is the request itself.
\<close>

definition feature_estimated_delivery_time :: "DeliveryRequest \<Rightarrow> real" where
  "feature_estimated_delivery_time data = max (order_prepare_time data * 0.6) 10"

definition feature_avg_speed_kmh :: "DeliveryRequest \<Rightarrow> real \<Rightarrow> real" where
  "feature_avg_speed_kmh data distance =
     (let estimated_delivery_time = feature_estimated_delivery_time data
      in if estimated_delivery_time > 0 then (distance / estimated_delivery_time) * 60 else 20)"

text \<open>The dictionary \<open>features\<close>, in insertion order, as the single row of the frame.\<close>

definition features :: "DeliveryRequest \<Rightarrow> real \<Rightarrow> dataframe" where
  "features data distance =
     [(''Delivery_person_Age'', Num (delivery_person_age data)),
      (''Delivery_person_Ratings'', Num (delivery_person_ratings data)),
      (''Restaurant_latitude'', Num (restaurant_latitude data)),
      (''Restaurant_longitude'', Num (restaurant_longitude data)),
      (''Delivery_location_latitude'', Num (delivery_latitude data)),
      (''Delivery_location_longitude'', Num (delivery_longitude data)),
      (''Weather_conditions'', Str (weather_str (weather_conditions data))),
      (''Road_traffic_density'', Str (traffic_str (road_traffic_density data))),
      (''Vehicle_condition'', Num (of_int (vehicle_condition data))),
      (''Type_of_order'', Str (order_type_str (type_of_order data))),
      (''Type_of_vehicle'', Str (vehicle_str (type_of_vehicle data))),
      (''multiple_deliveries'', Num (of_int (multiple_deliveries data))),
      (''Festival'', Str (festival_str (festival data))),
      (''City'', Str (city_str (city data))),
      (''City_code'', Str (city_code data)),
      (''order_prepare_time'', Num (order_prepare_time data)),
      (''distance'', Num distance),
      (''day'', Num (of_int (day data))),
      (''month'', Num (of_int (month data))),
      (''day_of_week'', Num (of_int (day_of_week data))),
      (''is_weekend'', Num (of_int (is_weekend data))),
      (''hour'', Num (of_int (hour data))),
      (''is_rush_hour'', Num (of_int (is_rush_hour data))),
      (''avg_speed_kmh'', Num (feature_avg_speed_kmh data distance))]"

text \<open>
  \<open>input_df[cat_cols] = encoder.transform(input_df[cat_cols])\<close>: the selection, the
  transform and the assignment (which needs one code per column, and whose message is
  shortened) can each raise.
\<close>

definition encode_categoricals :: "env \<Rightarrow> dataframe \<Rightarrow> string + dataframe" where
  "encode_categoricals E input_df =
     (let cat_cols = encoder_feature_names_in E
      in case df_select input_df cat_cols of
           Inl e \<Rightarrow> Inl e
         | Inr sub \<Rightarrow>
             (case encoder_transform E (map snd sub) of
                Inl e \<Rightarrow> Inl e
              | Inr codes \<Rightarrow>
                  if length codes \<noteq> length cat_cols
                  then Inl ''ValueError: shape mismatch''
                  else Inr (df_set_many input_df (zip cat_cols (map Num codes)))))"

text \<open>The loop over \<open>feature_columns\<close> that adds each missing column with the value 0.\<close>

fun fill_missing :: "dataframe \<Rightarrow> string list \<Rightarrow> dataframe" where
  "fill_missing input_df [] = input_df"
| "fill_missing input_df (col # cols) =
     fill_missing
       (if col \<notin> set (df_columns input_df) then df_set input_df col (Num 0) else input_df)
       cols"

definition prepare_features_for_prediction ::
  "env \<Rightarrow> DeliveryRequest \<Rightarrow> real \<Rightarrow> string + dataframe" where
  "prepare_features_for_prediction E data distance =
     (let input_df = features data distance
      in case encode_categoricals E input_df of
           Inl e \<Rightarrow> Inl e
         | Inr input_df \<Rightarrow>
             (let input_df = fill_missing input_df (feature_columns E)
              in df_select input_df (feature_columns E)))"

subsection \<open>The coordinate endpoint: \<open>predict_delivery_time\<close>\<close>

text \<open>
  The handlers end in \<open>except HTTPException: raise\<close> and
  \<open>except Exception as e: raise HTTPException(500, prefix + str(e))\<close>.
\<close>

definition reraise_500 :: "string \<Rightarrow> exn + 'a \<Rightarrow> exn + 'a" where
  "reraise_500 msg_prefix r =
     (case r of
        Inl (PyException msg) \<Rightarrow> Inl (HTTPException 500 (msg_prefix @ msg))
      | Inl (HTTPException status detail) \<Rightarrow> Inl (HTTPException status detail)
      | Inr v \<Rightarrow> Inr v)"

text \<open>The two local variables of the breakdown.\<close>

definition breakdown_estimated_delivery_time :: "real \<Rightarrow> real \<Rightarrow> real" where
  "breakdown_estimated_delivery_time predicted_time prep_time = predicted_time + prep_time"

definition breakdown_avg_speed :: "real \<Rightarrow> real \<Rightarrow> real" where
  "breakdown_avg_speed distance estimated_delivery_time =
     (if estimated_delivery_time > 0 then (distance / estimated_delivery_time) * 60 else 0)"

text \<open>The dictionary returned once the model has answered \<open>prediction\<close>.\<close>

definition build_response :: "env \<Rightarrow> DeliveryRequest \<Rightarrow> real \<Rightarrow> real \<Rightarrow> response" where
  "build_response E request distance prediction =
     (let predicted_time = np_clip prediction 5 120;
          prep_time = order_prepare_time request;
          estimated_delivery_time = breakdown_estimated_delivery_time predicted_time prep_time;
          avg_speed = breakdown_avg_speed distance estimated_delivery_time
      in \<lparr>success = True,
          predicted_delivery_time_minutes = py_round (predicted_time + 20) 2,
          calculated_distance_km = distance,
          breakdown =
            \<lparr>preparation_time_minutes = py_round prep_time 2,
             estimated_delivery_time_minutes = py_round estimated_delivery_time 2,
             average_speed_kmh = py_round avg_speed 2\<rparr>,
          conditions =
            \<lparr>cond_weather = weather_str (weather_conditions request),
             cond_traffic = traffic_str (road_traffic_density request),
             cond_is_rush_hour = (is_rush_hour request \<noteq> 0),
             cond_is_weekend = (is_weekend request \<noteq> 0),
             cond_festival = festival_str (festival request),
             cond_order_type = order_type_str (type_of_order request)\<rparr>,
          order_date = datetime_now E,
          geocoded_coordinates = None\<rparr>)"

text \<open>The body of the \<open>try\<close> block, with the calls made to the outside.\<close>

definition predict_delivery_time_try ::
  "env \<Rightarrow> DeliveryRequest \<Rightarrow> event list \<times> (exn + response)" where
  "predict_delivery_time_try E request =
     (case calculate_distance (restaurant_latitude request) (restaurant_longitude request)
             (delivery_latitude request) (delivery_longitude request) of
        Inl e \<Rightarrow> ([], Inl e)
      | Inr distance \<Rightarrow>
          if distance > 100 then
            ([], Inl (HTTPException 400
                       (''Distance too large ('' @ format_2f distance
                        @ '' km). Maximum 100km for delivery.'')))
          else if distance \<le> 0 then
            ([], Inl (HTTPException 400 ''Invalid coordinates - distance is zero''))
          else
            (case prepare_features_for_prediction E request distance of
               Inl msg \<Rightarrow> ([], Inl (PyException msg))
             | Inr input_df \<Rightarrow>
                 (case model_predict E input_df of
                    Inl msg \<Rightarrow> ([ModelPredict input_df], Inl (PyException msg))
                  | Inr prediction \<Rightarrow>
                      ([ModelPredict input_df],
                       Inr (build_response E request distance prediction)))))"

definition predict_delivery_time ::
  "env \<Rightarrow> DeliveryRequest \<Rightarrow> event list \<times> (exn + response)" where
  "predict_delivery_time E request =
     (let (calls, r) = predict_delivery_time_try E request
      in (calls, reraise_500 ''Prediction failed: '' r))"

subsection \<open>Geocoding and the address endpoint\<close>

text \<open>\<open>str(KeyError(k))\<close>: the key between single quotes.\<close>

definition key_error_str :: "string \<Rightarrow> string" where
  "key_error_str k = [CHR 0x27] @ k @ [CHR 0x27]"

text \<open>
  Every exception inside the \<open>try\<close> block becomes \<open>HTTPException 500\<close>: a failed request, a
  body that is not JSON, a body without \<open>results\<close>, a first result without its coordinates
  (a \<open>KeyError\<close> for \<open>geometry\<close>, \<open>lat\<close> or \<open>lng\<close>, written for \<open>geometry\<close> here).
\<close>

definition geocode_address ::
  "env \<Rightarrow> string \<Rightarrow> string \<Rightarrow> event list \<times> (exn + coordinates option)" where
  "geocode_address E address api_key =
     ([HttpGet address api_key],
      (case requests_get E address api_key of
         Inl msg \<Rightarrow> Inl (HTTPException 500 (''Geocoding error: '' @ msg))
       | Inr response \<Rightarrow>
           if status_code response = 200 then
             (case json response of
                Inl msg \<Rightarrow> Inl (HTTPException 500 (''Geocoding error: '' @ msg))
              | Inr NoResultsKey \<Rightarrow>
                  Inl (HTTPException 500 (''Geocoding error: '' @ key_error_str ''results''))
              | Inr (Results []) \<Rightarrow> Inr None
              | Inr (Results (None # _)) \<Rightarrow>
                  Inl (HTTPException 500 (''Geocoding error: '' @ key_error_str ''geometry''))
              | Inr (Results (Some c # _)) \<Rightarrow> Inr (Some c))
           else Inr None))"

text \<open>The \<open>DeliveryRequest(...)\<close> built from the two geocoding results.\<close>

definition coord_request :: "AddressBasedRequest \<Rightarrow> coordinates \<Rightarrow> coordinates \<Rightarrow> DeliveryRequest" where
  "coord_request request rest_coords del_coords =
     \<lparr>delivery_person_age = delivery_person_age request,
      delivery_person_ratings = delivery_person_ratings request,
      weather_conditions = weather_conditions request,
      road_traffic_density = road_traffic_density request,
      type_of_order = type_of_order request,
      type_of_vehicle = type_of_vehicle request,
      city = city request,
      festival = festival request,
      day = day request,
      month = month request,
      day_of_week = day_of_week request,
      is_weekend = is_weekend request,
      hour = hour request,
      is_rush_hour = is_rush_hour request,
      vehicle_condition = vehicle_condition request,
      multiple_deliveries = multiple_deliveries request,
      order_prepare_time = order_prepare_time request,
      city_code = city_code request,
      restaurant_latitude = latitude rest_coords,
      restaurant_longitude = longitude rest_coords,
      delivery_latitude = latitude del_coords,
      delivery_longitude = longitude del_coords\<rparr>"

text \<open>
  The body of the \<open>try\<close> block of \<open>predict_with_addresses\<close>. Building the
  \<open>DeliveryRequest\<close> validates it, and a failed validation is a Python exception (its
  message shortened to the first line).
\<close>

definition predict_with_addresses_try ::
  "env \<Rightarrow> AddressBasedRequest \<Rightarrow> event list \<times> (exn + response)" where
  "predict_with_addresses_try E request =
     (let (calls1, r1) =
            geocode_address E (restaurant_address request) (opencage_api_key request)
      in case r1 of
           Inl e \<Rightarrow> (calls1, Inl e)
         | Inr None \<Rightarrow>
             (calls1, Inl (HTTPException 400 ''Failed to geocode restaurant address''))
         | Inr (Some rest_coords) \<Rightarrow>
             (let (calls2, r2) =
                    geocode_address E (delivery_address request) (opencage_api_key request)
              in case r2 of
                   Inl e \<Rightarrow> (calls1 @ calls2, Inl e)
                 | Inr None \<Rightarrow>
                     (calls1 @ calls2,
                      Inl (HTTPException 400 ''Failed to geocode delivery address''))
                 | Inr (Some del_coords) \<Rightarrow>
                     (let coord_request = coord_request request rest_coords del_coords
                      in if \<not> DeliveryRequest_valid coord_request then
                           (calls1 @ calls2,
                            Inl (PyException ''validation error for DeliveryRequest''))
                         else
                           (let (calls3, r3) = predict_delivery_time E coord_request
                            in case r3 of
                                 Inl e \<Rightarrow> (calls1 @ calls2 @ calls3, Inl e)
                               | Inr result \<Rightarrow>
                                   (calls1 @ calls2 @ calls3,
                                    Inr (result\<lparr>geocoded_coordinates :=
                                           Some \<lparr>restaurant = rest_coords,
                                                 delivery = del_coords\<rparr>\<rparr>))))))"

definition predict_with_addresses ::
  "env \<Rightarrow> AddressBasedRequest \<Rightarrow> event list \<times> (exn + response)" where
  "predict_with_addresses E request =
     (let (calls, r) = predict_with_addresses_try E request
      in (calls, reraise_500 ''Address-based prediction failed: '' r))"

text \<open>The utility endpoint \<open>/geocode\<close>.\<close>

definition geocode_endpoint :: "env \<Rightarrow> string \<Rightarrow> string \<Rightarrow> event list \<times> (exn + coordinates)" where
  "geocode_endpoint E address api_key =
     (let (calls, r) = geocode_address E address api_key
      in case r of
           Inl e \<Rightarrow> (calls, Inl e)
         | Inr None \<Rightarrow>
             (calls, Inl (HTTPException 400 ''Geocoding failed - check address and API key''))
         | Inr (Some c) \<Rightarrow> (calls, Inr c))"

text \<open>An HTTP status from 400 to 499 is a client error.\<close>

definition client_error :: "exn + 'a \<Rightarrow> bool" where
  "client_error r =
     (case r of
        Inl (HTTPException status detail) \<Rightarrow> 400 \<le> status \<and> status < 500
      | _ \<Rightarrow> False)"

subsection \<open>A sample artifact and sample requests\<close>

text \<open>
  A small artifact to run the definitions on: a linear model of the distance, an encoder
  of two categorical columns (the code of a value is its length), four canonical
  features of which \<open>traffic_index\<close> is not one the assembly produces, and a geocoder
  that knows two addresses.
\<close>

definition sample_model :: "dataframe \<Rightarrow> string + real" where
  "sample_model df =
     (case map_of df ''distance'' of
        Some (Num d) \<Rightarrow> Inr (18.1267 + 4 * d)
      | _ \<Rightarrow> Inl ''feature distance is missing'')"

definition sample_transform :: "cell list \<Rightarrow> string + real list" where
  "sample_transform cells =
     Inr (map (\<lambda>c. case c of Str s \<Rightarrow> of_nat (length s) | Num x \<Rightarrow> x) cells)"

definition sample_get :: "string \<Rightarrow> string \<Rightarrow> string + http_response" where
  "sample_get address api_key =
     (if address = ''Restaurant'' then
        Inr \<lparr>status_code = 200,
             json = Inr (Results [Some \<lparr>latitude = 22.745049, longitude = 75.892471\<rparr>])\<rparr>
      else if address = ''Customer'' then
        Inr \<lparr>status_code = 200,
             json = Inr (Results [Some \<lparr>latitude = 22.765049, longitude = 75.892471\<rparr>])\<rparr>
      else if address = ''Nowhere'' then
        Inr \<lparr>status_code = 200, json = Inr (Results [])\<rparr>
      else if address = ''Forbidden'' then
        Inr \<lparr>status_code = 403, json = Inl ''not JSON''\<rparr>
      else Inl ''connection timed out'')"

definition sample_env :: env where
  "sample_env =
     \<lparr>model_predict = sample_model,
      encoder_feature_names_in = [''Weather_conditions'', ''Road_traffic_density''],
      encoder_transform = sample_transform,
      feature_columns =
        [''distance'', ''traffic_index'', ''Weather_conditions'', ''avg_speed_kmh''],
      requests_get = sample_get,
      datetime_now = ''2024-12-15 18:00:00''\<rparr>"

text \<open>The order of the source's examples, delivered 2.2 km to the north.\<close>

definition sample_request :: DeliveryRequest where
  "sample_request =
     \<lparr>delivery_person_age = 28,
      delivery_person_ratings = 4.5,
      weather_conditions = Sunny,
      road_traffic_density = Medium,
      type_of_order = Meal,
      type_of_vehicle = motorcycle,
      city = Urban,
      festival = No,
      day = 15,
      month = 12,
      day_of_week = 3,
      is_weekend = 0,
      hour = 18,
      is_rush_hour = 1,
      vehicle_condition = 2,
      multiple_deliveries = 0,
      order_prepare_time = 15,
      city_code = ''INDO'',
      restaurant_latitude = 22.745049,
      restaurant_longitude = 75.892471,
      delivery_latitude = 22.765049,
      delivery_longitude = 75.892471\<rparr>"

text \<open>The same order delivered 222 km away, to the restaurant itself, and next door.\<close>

definition far_request :: DeliveryRequest where
  "far_request = sample_request\<lparr>delivery_latitude := 24.745049\<rparr>"

definition same_place_request :: DeliveryRequest where
  "same_place_request = sample_request\<lparr>delivery_latitude := 22.745049\<rparr>"

definition next_door_request :: DeliveryRequest where
  "next_door_request =
     sample_request\<lparr>delivery_latitude := 22.745149, order_prepare_time := 150\<rparr>"

definition sample_address_request :: AddressBasedRequest where
  "sample_address_request =
     \<lparr>delivery_person_age = 28,
      delivery_person_ratings = 4.5,
      weather_conditions = Sunny,
      road_traffic_density = Medium,
      type_of_order = Meal,
      type_of_vehicle = motorcycle,
      city = Urban,
      festival = No,
      day = 15,
      month = 12,
      day_of_week = 3,
      is_weekend = 0,
      hour = 18,
      is_rush_hour = 1,
      vehicle_condition = 2,
      multiple_deliveries = 0,
      order_prepare_time = 15,
      city_code = ''INDO'',
      restaurant_address = ''Restaurant'',
      delivery_address = ''Customer'',
      opencage_api_key = ''key''\<rparr>"

text \<open>The frames the model receives for two of the requests, and the responses.\<close>

definition sample_frame :: dataframe where
  "sample_frame =
     [(''distance'', Num 2.22), (''traffic_index'', Num 0),
      (''Weather_conditions'', Num 5), (''avg_speed_kmh'', Num 13.32)]"

definition sample_response :: response where
  "sample_response =
     \<lparr>success = True,
      predicted_delivery_time_minutes = 47.01,
      calculated_distance_km = 2.22,
      breakdown =
        \<lparr>preparation_time_minutes = 15,
         estimated_delivery_time_minutes = 42.01,
         average_speed_kmh = 3.17\<rparr>,
      conditions =
        \<lparr>cond_weather = ''Sunny'',
         cond_traffic = ''Medium'',
         cond_is_rush_hour = True,
         cond_is_weekend = False,
         cond_festival = ''No'',
         cond_order_type = ''Meal''\<rparr>,
      order_date = ''2024-12-15 18:00:00'',
      geocoded_coordinates = None\<rparr>"

definition next_door_frame :: dataframe where
  "next_door_frame =
     [(''distance'', Num 0.01), (''traffic_index'', Num 0),
      (''Weather_conditions'', Num 5), (''avg_speed_kmh'', Num (1 / 150))]"

definition next_door_response :: response where
  "next_door_response =
     \<lparr>success = True,
      predicted_delivery_time_minutes = 38.17,
      calculated_distance_km = 0.01,
      breakdown =
        \<lparr>preparation_time_minutes = 150,
         estimated_delivery_time_minutes = 168.17,
         average_speed_kmh = 0\<rparr>,
      conditions =
        \<lparr>cond_weather = ''Sunny'',
         cond_traffic = ''Medium'',
         cond_is_rush_hour = True,
         cond_is_weekend = False,
         cond_festival = ''No'',
         cond_order_type = ''Meal''\<rparr>,
      order_date = ''2024-12-15 18:00:00'',
      geocoded_coordinates = None\<rparr>"

section \<open>Properties\<close>

subsection \<open>Rounding and clipping\<close>

lemma round_half_even_of_int: "round_half_even (of_int n) = n"
  by (simp add: round_half_even_def)

lemma round_half_even_floor:
  "\<lfloor>y\<rfloor> \<le> round_half_even y \<and> round_half_even y \<le> \<lfloor>y\<rfloor> + 1"
  by (simp add: round_half_even_def Let_def)

lemma round_half_even_mono:
  assumes "x \<le> y"
  shows "round_half_even x \<le> round_half_even y"
proof (cases "\<lfloor>x\<rfloor> = \<lfloor>y\<rfloor>")
  case True
  with assms show ?thesis
    unfolding round_half_even_def Let_def by auto
next
  case False
  with assms have "\<lfloor>x\<rfloor> + 1 \<le> \<lfloor>y\<rfloor>"
    using floor_mono [of x y] by linarith
  then show ?thesis
    using round_half_even_floor [of x] round_half_even_floor [of y] by linarith
qed

lemma round_half_even_unique:
  assumes "of_int n - 1 / 2 < y" "y < of_int n + 1 / 2"
  shows "round_half_even y = n"
proof -
  have "\<lfloor>y\<rfloor> = n \<or> \<lfloor>y\<rfloor> = n - 1" using assms by linarith
  then show ?thesis
  proof
    assume f: "\<lfloor>y\<rfloor> = n"
    then have "y - of_int n < 1 / 2" using assms by simp
    with f show ?thesis by (simp add: round_half_even_def Let_def)
  next
    assume f: "\<lfloor>y\<rfloor> = n - 1"
    then have "1 / 2 < y - of_int (n - 1)" using assms by simp
    with f show ?thesis by (simp add: round_half_even_def Let_def)
  qed
qed

lemma py_round_zero: "py_round 0 n = 0"
  by (simp add: py_round_def round_half_even_def)

lemma py_round_mono: "x \<le> y \<Longrightarrow> py_round x n \<le> py_round y n"
  unfolding py_round_def
  by (intro divide_right_mono) (simp_all add: round_half_even_mono)

lemma py_round_of_int: "py_round (of_int k) n = of_int k"
proof -
  have "of_int k * (10::real) ^ n = of_int (k * 10 ^ n)" by simp
  then show ?thesis
    unfolding py_round_def by (simp only: round_half_even_of_int) simp
qed

lemma py_round_numeral: "py_round (numeral k) n = numeral k"
  using py_round_of_int [of "numeral k" n] by simp

lemma np_clip_range: "lo \<le> hi \<Longrightarrow> lo \<le> np_clip x lo hi \<and> np_clip x lo hi \<le> hi"
  by (simp add: np_clip_def)

subsection \<open>An enclosure of \<open>pi\<close>\<close>

text \<open>
  Concrete distances need \<open>pi\<close> to four decimals. The sine is increasing around
  \<open>pi / 6\<close>, where it is \<open>1 / 2\<close>, and its Maclaurin polynomial of degree 7 encloses it.
\<close>

lemma sin_poly8:
  "(\<Sum>m<8. sin_coeff m * x ^ m) = x - x ^ 3 / 6 + x ^ 5 / 120 - x ^ 7 / 5040" for x :: real
  by (simp add: sin_coeff_Suc cos_coeff_Suc eval_nat_numeral)

lemma sin_enclosure:
  fixes x :: real
  shows "\<bar>sin x - (x - x ^ 3 / 6 + x ^ 5 / 120 - x ^ 7 / 5040)\<bar> \<le> \<bar>x\<bar> ^ 8 / 40320"
proof -
  have "(fact 8 :: real) = 40320" by (simp add: eval_nat_numeral)
  then show ?thesis
    using Maclaurin_sin_bound [of x 8] by (simp add: sin_poly8 inverse_eq_divide)
qed

lemma pi_lower: "314155 / 100000 < pi"
proof -
  define x :: real where "x = 314155 / 600000"
  have "sin x \<le> (x - x ^ 3 / 6 + x ^ 5 / 120 - x ^ 7 / 5040) + \<bar>x\<bar> ^ 8 / 40320"
    using sin_enclosure [of x] by linarith
  also have "\<dots> < 1 / 2" by (simp add: x_def power_divide)
  finally have "sin x < sin (pi / 6)" by (simp add: sin_30)
  moreover have "- (pi / 2) \<le> x" "x \<le> pi / 2" "- (pi / 2) \<le> pi / 6" "pi / 6 \<le> pi / 2"
    using pi_ge_two by (simp_all add: x_def)
  ultimately have "x < pi / 6" by (simp add: sin_mono_less_eq)
  then show ?thesis by (simp add: x_def)
qed

lemma pi_upper: "pi < 314165 / 100000"
proof -
  define x :: real where "x = 314165 / 600000"
  have "1 / 2 < (x - x ^ 3 / 6 + x ^ 5 / 120 - x ^ 7 / 5040) - \<bar>x\<bar> ^ 8 / 40320"
    by (simp add: x_def power_divide)
  also have "\<dots> \<le> sin x"
    using sin_enclosure [of x] by linarith
  finally have "sin (pi / 6) < sin x" by (simp add: sin_30)
  moreover have "- (pi / 2) \<le> x" "x \<le> pi / 2" "- (pi / 2) \<le> pi / 6" "pi / 6 \<le> pi / 2"
    using pi_ge_two by (simp_all add: x_def)
  ultimately have "pi / 6 < x" by (simp add: sin_mono_less_eq)
  then show ?thesis by (simp add: x_def)
qed

subsection \<open>The haversine distance\<close>

lemma haversine_a_sym: "haversine_a lat1 lon1 lat2 lon2 = haversine_a lat2 lon2 lat1 lon1"
proof -
  have s: "(sin ((x - y) / 2))\<^sup>2 = (sin ((y - x) / 2))\<^sup>2" for x y :: real
  proof -
    have "(x - y) / 2 = - ((y - x) / 2)" by (simp add: field_simps)
    then have "sin ((x - y) / 2) = - sin ((y - x) / 2)"
      by (metis sin_minus)
    then show ?thesis by simp
  qed
  show ?thesis
    unfolding haversine_a_def Let_def
    by (simp add: s [of "radians lat2" "radians lat1"] s [of "radians lon2" "radians lon1"]
        mult.commute)
qed

lemma haversine_a_same: "haversine_a lat lon lat lon = 0"
  by (simp add: haversine_a_def)

lemma calculate_distance_same: "calculate_distance lat lon lat lon = Inr 0"
  by (simp add: calculate_distance_def haversine_a_same py_sqrt_def atan2_def py_round_zero)

text \<open>
  In exact arithmetic the term \<open>a\<close> is half of one minus the cosine of the central angle,
  so it stays in \<open>[0, 1]\<close> and neither square root of \<open>calculate_distance\<close> leaves its
  domain. This is a fact about the real numbers only (binary rounding can push \<open>a\<close> above
  1), and no statement about the endpoints below relies on it.
\<close>

lemma sin_half_sq: "(sin (x / 2))\<^sup>2 = (1 - cos x) / 2" for x :: real
  using cos_double_sin [of "x / 2"] by simp

lemma convex_bound:
  fixes u A B :: real
  assumes "0 \<le> u" "u \<le> 1" "\<bar>A\<bar> \<le> 1" "\<bar>B\<bar> \<le> 1"
  shows "\<bar>u * A - (1 - u) * B\<bar> \<le> 1"
proof -
  have "\<bar>u * A\<bar> \<le> u" using assms by (simp add: abs_mult mult_left_le)
  moreover have "\<bar>(1 - u) * B\<bar> \<le> 1 - u" using assms by (simp add: abs_mult mult_left_le)
  ultimately show ?thesis by linarith
qed

lemma haversine_a_closed_form:
  "haversine_a lat1 lon1 lat2 lon2 =
     (1 - (sin (radians lat1) * sin (radians lat2)
           + cos (radians lat1) * cos (radians lat2) * cos (radians lon2 - radians lon1))) / 2"
  unfolding haversine_a_def Let_def sin_half_sq
  by (simp add: cos_diff field_simps)

lemma haversine_a_range:
  "0 \<le> haversine_a lat1 lon1 lat2 lon2 \<and> haversine_a lat1 lon1 lat2 lon2 \<le> 1"
proof -
  define p where "p = radians lat1"
  define q where "q = radians lat2"
  define k where "k = cos (radians lon2 - radians lon1)"
  define u where "u = (1 + k) / 2"
  have k: "-1 \<le> k" "k \<le> 1" by (simp_all add: k_def)
  have u: "0 \<le> u" "u \<le> 1" using k by (simp_all add: u_def)
  have "sin p * sin q + cos p * cos q * k = u * cos (p - q) - (1 - u) * cos (p + q)"
    by (simp add: u_def cos_diff cos_add field_simps)
  moreover have "\<bar>u * cos (p - q) - (1 - u) * cos (p + q)\<bar> \<le> 1"
    by (rule convex_bound [OF u]) (simp_all add: abs_le_iff)
  ultimately have "\<bar>sin p * sin q + cos p * cos q * k\<bar> \<le> 1" by simp
  then show ?thesis
    unfolding haversine_a_closed_form p_def [symmetric] q_def [symmetric] k_def [symmetric]
    by (simp add: abs_le_iff)
qed

lemma calculate_distance_total: "\<exists>d. calculate_distance lat1 lon1 lat2 lon2 = Inr d"
  using haversine_a_range [of lat1 lon1 lat2 lon2]
  by (simp add: calculate_distance_def py_sqrt_def Let_def)

text \<open>Two points on one meridian: the distance is the rounded arc of their latitudes.\<close>

lemma atan2_sin_cos:
  assumes "0 \<le> h" "h < pi / 2"
  shows "atan2 (sin h) (cos h) = h"
proof -
  have c: "0 < cos h" using assms by (intro cos_gt_zero_pi) linarith+
  have "arctan (tan h) = h" using assms by (intro arctan_tan) linarith+
  with c show ?thesis by (simp add: atan2_def tan_def)
qed

lemma calculate_distance_meridian:
  assumes "lat1 \<le> lat2" "lat2 - lat1 < 180"
  shows "calculate_distance lat1 lon lat2 lon = Inr (py_round (6371 * radians (lat2 - lat1)) 2)"
proof -
  define h where "h = (radians lat2 - radians lat1) / 2"
  have h_eq: "h = (lat2 - lat1) * pi / 360"
    by (simp add: h_def radians_def field_simps)
  have "(lat2 - lat1) * pi < 180 * pi"
    using assms by (intro mult_strict_right_mono) simp_all
  moreover have "0 \<le> (lat2 - lat1) * pi"
    using assms by simp
  ultimately have h: "0 \<le> h" "h < pi / 2"
    by (simp_all add: h_eq)
  have s: "0 \<le> sin h" using h by (intro sin_ge_zero) linarith+
  have c: "0 < cos h" using h by (intro cos_gt_zero_pi) linarith+
  have a: "haversine_a lat1 lon lat2 lon = (sin h)\<^sup>2"
    by (simp add: haversine_a_def h_def)
  have "1 - (sin h)\<^sup>2 = (cos h)\<^sup>2" by (simp add: cos_squared_eq)
  then have b: "sqrt (1 - (sin h)\<^sup>2) = cos h" using c by simp
  have "2 * h = radians (lat2 - lat1)" by (simp add: h_def radians_def field_simps)
  moreover have "\<not> 1 < (sin h)\<^sup>2"
    using sin_squared_eq [of h] zero_le_power2 [of "cos h"] by linarith
  ultimately show ?thesis
    using s b atan2_sin_cos [OF h]
    by (simp add: calculate_distance_def a py_sqrt_def Let_def)
qed

text \<open>Three pairs of points north of Indore: 11 m, 2.2 km and 222 km apart.\<close>

lemma calculate_distance_11m:
  "calculate_distance 22.745049 75.892471 22.745149 75.892471 = Inr 0.01"
proof -
  have "round_half_even (6371 * radians (22.745149 - 22.745049) * 100) = 1"
    using pi_lower pi_upper
    by (intro round_half_even_unique) (simp_all add: radians_def)
  then show ?thesis
    by (simp add: calculate_distance_meridian py_round_def)
qed

lemma calculate_distance_2km:
  "calculate_distance 22.745049 75.892471 22.765049 75.892471 = Inr 2.22"
proof -
  have "round_half_even (6371 * radians (22.765049 - 22.745049) * 100) = 222"
    using pi_lower pi_upper
    by (intro round_half_even_unique) (simp_all add: radians_def)
  then show ?thesis
    by (simp add: calculate_distance_meridian py_round_def)
qed

lemma calculate_distance_222km:
  "calculate_distance 22.745049 75.892471 24.745049 75.892471 = Inr 222.39"
proof -
  have "round_half_even (6371 * radians (24.745049 - 22.745049) * 100) = 22239"
    using pi_lower pi_upper
    by (intro round_half_even_unique) (simp_all add: radians_def)
  then show ?thesis
    by (simp add: calculate_distance_meridian py_round_def)
qed

subsection \<open>Data frames\<close>

lemma df_columns_set:
  "df_columns (df_set df col v) =
     (if col \<in> set (df_columns df) then df_columns df else df_columns df @ [col])"
  by (induction df col v rule: df_set.induct) (auto simp: df_columns_def)

lemma map_of_df_set: "map_of (df_set df col v) = (map_of df)(col \<mapsto> v)"
  by (induction df col v rule: df_set.induct) (auto simp: fun_eq_iff)

lemma set_df_columns_set: "set (df_columns (df_set df col v)) = insert col (set (df_columns df))"
  by (auto simp: df_columns_set)

lemma set_df_columns_set_many:
  "set (df_columns (df_set_many df kvs)) = set (df_columns df) \<union> fst ` set kvs"
  by (induction df kvs rule: df_set_many.induct) (auto simp: set_df_columns_set)

lemma df_columns_set_many:
  "fst ` set kvs \<subseteq> set (df_columns df) \<Longrightarrow> df_columns (df_set_many df kvs) = df_columns df"
proof (induction df kvs rule: df_set_many.induct)
  case (1 df)
  then show ?case by simp
next
  case (2 df col v kvs)
  then have "df_columns (df_set df col v) = df_columns df"
    by (simp add: df_columns_set)
  with 2 show ?case by simp
qed

lemma df_select_Inr:
  "df_select df cols = Inr r \<Longrightarrow>
     set cols \<subseteq> set (df_columns df) \<and> r = map (\<lambda>c. (c, the (map_of df c))) cols"
proof (induction cols arbitrary: r)
  case Nil
  then show ?case by simp
next
  case (Cons c cols)
  then show ?case
    by (auto simp: df_columns_def split: option.splits sum.splits dest!: map_of_SomeD
        intro: rev_image_eqI)
qed

lemma df_select_total:
  "set cols \<subseteq> set (df_columns df) \<Longrightarrow>
     df_select df cols = Inr (map (\<lambda>c. (c, the (map_of df c))) cols)"
proof (induction cols)
  case Nil
  then show ?case by simp
next
  case (Cons c cols)
  then have "c \<in> fst ` set df" by (simp add: df_columns_def)
  then obtain v where "map_of df c = Some v"
    by (metis domD dom_map_of_conv_image_fst)
  with Cons show ?case by simp
qed

lemma map_of_select:
  "c \<in> set cols \<Longrightarrow> map_of (map (\<lambda>c. (c, the (map_of df c))) cols) c = Some (the (map_of df c))"
  by (induction cols) auto

lemma set_df_columns_fill_missing:
  "set (df_columns (fill_missing df cols)) = set (df_columns df) \<union> set cols"
  by (induction df cols rule: fill_missing.induct) (auto simp: set_df_columns_set)

lemma map_of_absent: "c \<notin> set (df_columns df) \<Longrightarrow> map_of df c = None"
  by (simp add: df_columns_def map_of_eq_None_iff)

lemma map_of_fill_missing:
  "map_of (fill_missing df cols) c =
     (if c \<in> set (df_columns df) then map_of df c
      else if c \<in> set cols then Some (Num 0) else None)"
proof (induction df cols rule: fill_missing.induct)
  case (1 input_df)
  then show ?case
    by (simp add: map_of_absent)
next
  case (2 input_df col cols)
  show ?case
  proof (cases "col \<in> set (df_columns input_df)")
    case True
    with 2 show ?thesis by auto
  next
    case False
    with 2 show ?thesis
      by (auto simp: map_of_df_set set_df_columns_set)
  qed
qed

lemma encode_categoricals_columns:
  assumes "encode_categoricals E df = Inr enc"
  shows "df_columns enc = df_columns df"
proof -
  from assms obtain sub codes where
    sel: "df_select df (encoder_feature_names_in E) = Inr sub"
    and len: "length codes = length (encoder_feature_names_in E)"
    and enc: "enc = df_set_many df (zip (encoder_feature_names_in E) (map Num codes))"
    by (auto simp: encode_categoricals_def Let_def split: sum.splits if_splits)
  from sel have "set (encoder_feature_names_in E) \<subseteq> set (df_columns df)"
    by (simp add: df_select_Inr)
  moreover have "fst ` set (zip (encoder_feature_names_in E) (map Num codes))
      \<subseteq> set (encoder_feature_names_in E)"
    by (auto dest: set_zip_leftD)
  ultimately show ?thesis
    unfolding enc by (intro df_columns_set_many) blast
qed

lemma prepare_features_characterisation:
  "(case encode_categoricals E (features data distance) of
      Inl e \<Rightarrow> prepare_features_for_prediction E data distance = Inl e
    | Inr enc \<Rightarrow>
        (\<exists>input_df. prepare_features_for_prediction E data distance = Inr input_df
           \<and> df_columns input_df = feature_columns E
           \<and> (\<forall>col \<in> set (feature_columns E).
                 map_of input_df col =
                   (if col \<in> set (df_columns (features data distance))
                    then map_of enc col else Some (Num 0)))))"
proof (cases "encode_categoricals E (features data distance)")
  case (Inl e)
  then show ?thesis by (simp add: prepare_features_for_prediction_def)
next
  case (Inr enc)
  define filled where "filled = fill_missing enc (feature_columns E)"
  define input_df where "input_df = map (\<lambda>c. (c, the (map_of filled c))) (feature_columns E)"
  have cols: "df_columns enc = df_columns (features data distance)"
    using Inr by (rule encode_categoricals_columns)
  have "set (feature_columns E) \<subseteq> set (df_columns filled)"
    by (simp add: filled_def set_df_columns_fill_missing)
  then have sel: "df_select filled (feature_columns E) = Inr input_df"
    unfolding input_df_def by (rule df_select_total)
  have p: "prepare_features_for_prediction E data distance = Inr input_df"
    using Inr sel by (simp add: prepare_features_for_prediction_def filled_def)
  have c: "df_columns input_df = feature_columns E"
    by (simp add: input_df_def df_columns_def comp_def)
  have v: "map_of input_df col =
        (if col \<in> set (df_columns (features data distance))
         then map_of enc col else Some (Num 0))"
    if "col \<in> set (feature_columns E)" for col
  proof -
    have "map_of input_df col = Some (the (map_of filled col))"
      using that unfolding input_df_def by (rule map_of_select)
    moreover have "map_of filled col =
        (if col \<in> set (df_columns enc) then map_of enc col else Some (Num 0))"
      using that by (simp add: filled_def map_of_fill_missing)
    moreover have "\<exists>x. map_of enc col = Some x" if "col \<in> set (df_columns enc)"
      using that by (metis df_columns_def domD dom_map_of_conv_image_fst set_map)
    ultimately show ?thesis
      using cols by auto
  qed
  show ?thesis
    using Inr p c v by auto
qed

lemma map_of_df_set_many:
  "c \<notin> fst ` set kvs \<Longrightarrow> map_of (df_set_many df kvs) c = map_of df c"
  by (induction df kvs rule: df_set_many.induct) (auto simp: map_of_df_set)

lemma encode_categoricals_untouched:
  assumes "encode_categoricals E df = Inr enc" "c \<notin> set (encoder_feature_names_in E)"
  shows "map_of enc c = map_of df c"
proof -
  from assms(1) obtain codes where
    enc: "enc = df_set_many df (zip (encoder_feature_names_in E) (map Num codes))"
    by (auto simp: encode_categoricals_def Let_def split: sum.splits if_splits)
  have "c \<notin> fst ` set (zip (encoder_feature_names_in E) (map Num codes))"
    using assms(2) by (auto dest: set_zip_leftD)
  then show ?thesis
    unfolding enc by (rule map_of_df_set_many)
qed

lemma feature_estimated_delivery_time_ge_10: "10 \<le> feature_estimated_delivery_time data"
  by (simp add: feature_estimated_delivery_time_def)

lemma feature_avg_speed_kmh_eq:
  "feature_avg_speed_kmh data distance = distance / max (order_prepare_time data * 0.6) 10 * 60"
  by (simp add: feature_avg_speed_kmh_def Let_def feature_estimated_delivery_time_def
      less_max_iff_disj)

lemma features_columns:
  "df_columns (features data distance) =
     [''Delivery_person_Age'', ''Delivery_person_Ratings'', ''Restaurant_latitude'',
      ''Restaurant_longitude'', ''Delivery_location_latitude'', ''Delivery_location_longitude'',
      ''Weather_conditions'', ''Road_traffic_density'', ''Vehicle_condition'', ''Type_of_order'',
      ''Type_of_vehicle'', ''multiple_deliveries'', ''Festival'', ''City'', ''City_code'',
      ''order_prepare_time'', ''distance'', ''day'', ''month'', ''day_of_week'', ''is_weekend'',
      ''hour'', ''is_rush_hour'', ''avg_speed_kmh'']"
  by (simp add: features_def df_columns_def)

lemma features_avg_speed_kmh:
  "map_of (features data distance) ''avg_speed_kmh'' = Some (Num (feature_avg_speed_kmh data distance))"
  by (simp add: features_def)

lemma sample_prepare:
  "prepare_features_for_prediction sample_env sample_request 2.22 =
     Inr [(''distance'', Num 2.22), (''traffic_index'', Num 0),
          (''Weather_conditions'', Num 5), (''avg_speed_kmh'', Num 13.32)]"
  by (simp add: prepare_features_for_prediction_def features_def encode_categoricals_def
      sample_env_def sample_transform_def df_columns_def sample_request_def
      feature_avg_speed_kmh_def feature_estimated_delivery_time_def)

subsection \<open>Feature assembly\<close>

lemma sample_encode:
  "encode_categoricals sample_env (features sample_request 2.22) =
     Inr [(''Delivery_person_Age'', Num 28),
          (''Delivery_person_Ratings'', Num 4.5),
          (''Restaurant_latitude'', Num 22.745049),
          (''Restaurant_longitude'', Num 75.892471),
          (''Delivery_location_latitude'', Num 22.765049),
          (''Delivery_location_longitude'', Num 75.892471),
          (''Weather_conditions'', Num 5),
          (''Road_traffic_density'', Num 6),
          (''Vehicle_condition'', Num 2),
          (''Type_of_order'', Str ''Meal''),
          (''Type_of_vehicle'', Str ''motorcycle''),
          (''multiple_deliveries'', Num 0),
          (''Festival'', Str ''No''),
          (''City'', Str ''Urban''),
          (''City_code'', Str ''INDO''),
          (''order_prepare_time'', Num 15),
          (''distance'', Num 2.22),
          (''day'', Num 15),
          (''month'', Num 12),
          (''day_of_week'', Num 3),
          (''is_weekend'', Num 0),
          (''hour'', Num 18),
          (''is_rush_hour'', Num 1),
          (''avg_speed_kmh'', Num 13.32)]"
  by (simp add: features_def encode_categoricals_def
      sample_env_def sample_transform_def sample_request_def
      feature_avg_speed_kmh_def feature_estimated_delivery_time_def)

text \<open>
  C4: feature assembly raises only when the encoding step does. Whenever the encoding
  step succeeds, for any request, distance and artifact, it returns a frame whose columns
  are exactly the artifact's \<open>feature_columns\<close>, in that order; every expected column
  that the assembly did not produce holds 0, and every other expected column holds its
  (encoded) assembled value.
\<close>

theorem prepare_features_matches_feature_columns:
  "(case encode_categoricals E (features data distance) of
      Inl e \<Rightarrow> prepare_features_for_prediction E data distance = Inl e
    | Inr enc \<Rightarrow>
        (\<exists>input_df. prepare_features_for_prediction E data distance = Inr input_df
           \<and> df_columns input_df = feature_columns E
           \<and> (\<forall>col \<in> set (feature_columns E).
                 map_of input_df col =
                   (if col \<in> set (df_columns (features data distance))
                    then map_of enc col else Some (Num 0)))))"
  by (rule prepare_features_characterisation)

theorem prepare_features_matches_feature_columns_witness:
  "(\<exists>enc. encode_categoricals sample_env (features sample_request 2.22) = Inr enc
       \<and> map_of enc ''distance'' = Some (Num 2.22)
       \<and> map_of enc ''Weather_conditions'' = Some (Num 5))
   \<and> prepare_features_for_prediction sample_env sample_request 2.22 =
       Inr [(''distance'', Num 2.22), (''traffic_index'', Num 0),
            (''Weather_conditions'', Num 5), (''avg_speed_kmh'', Num 13.32)]
   \<and> df_columns [(''distance'', Num 2.22), (''traffic_index'', Num 0),
          (''Weather_conditions'', Num 5), (''avg_speed_kmh'', Num 13.32)]
       = feature_columns sample_env
   \<and> ''traffic_index'' \<in> set (feature_columns sample_env)
   \<and> ''traffic_index'' \<notin> set (df_columns (features sample_request 2.22))
   \<and> map_of [(''distance'', Num 2.22), (''traffic_index'', Num 0),
          (''Weather_conditions'', Num 5), (''avg_speed_kmh'', Num 13.32)] ''traffic_index''
       = Some (Num 0)
   \<and> ''distance'' \<in> set (feature_columns sample_env)
   \<and> ''distance'' \<in> set (df_columns (features sample_request 2.22))
   \<and> map_of [(''distance'', Num 2.22), (''traffic_index'', Num 0),
          (''Weather_conditions'', Num 5), (''avg_speed_kmh'', Num 13.32)] ''distance''
       = Some (Num 2.22)"
proof -
  obtain enc where e: "encode_categoricals sample_env (features sample_request 2.22) = Inr enc"
    and ed: "map_of enc ''distance'' = Some (Num 2.22)"
    and ew: "map_of enc ''Weather_conditions'' = Some (Num 5)"
    using sample_encode by simp
  from prepare_features_matches_feature_columns [of sample_env sample_request "2.22"] e
  obtain input_df where
    p: "prepare_features_for_prediction sample_env sample_request 2.22 = Inr input_df"
    and c: "df_columns input_df = feature_columns sample_env"
    and v: "\<forall>col \<in> set (feature_columns sample_env).
                 map_of input_df col =
                   (if col \<in> set (df_columns (features sample_request 2.22))
                    then map_of enc col else Some (Num 0))"
    by auto
  from p sample_prepare have i: "input_df =
      [(''distance'', Num 2.22), (''traffic_index'', Num 0),
       (''Weather_conditions'', Num 5), (''avg_speed_kmh'', Num 13.32)]"
    by simp
  have m: "''traffic_index'' \<in> set (feature_columns sample_env)"
    "''distance'' \<in> set (feature_columns sample_env)"
    by (simp_all add: sample_env_def)
  have n: "''traffic_index'' \<notin> set (df_columns (features sample_request 2.22))"
    "''distance'' \<in> set (df_columns (features sample_request 2.22))"
    by (simp_all add: features_columns)
  from v m n ed have t: "map_of input_df ''traffic_index'' = Some (Num 0)"
    and d: "map_of input_df ''distance'' = Some (Num 2.22)"
    by auto
  from e ed ew p c t d m n show ?thesis
    unfolding i by blast
qed

text \<open>
  C5: the synthesized feature \<open>avg_speed_kmh\<close> is
  \<open>distance / max(order_prepare_time * 0.6, 10) * 60\<close> for every request and distance: as
  computed, as stored in the feature dictionary, and as handed to the model whenever the
  artifact expects the column and does not encode it.
\<close>

theorem avg_speed_kmh_feature:
  "feature_avg_speed_kmh data distance = distance / max (order_prepare_time data * 0.6) 10 * 60
   \<and> map_of (features data distance) ''avg_speed_kmh''
       = Some (Num (distance / max (order_prepare_time data * 0.6) 10 * 60))
   \<and> (prepare_features_for_prediction E data distance = Inr input_df
        \<and> ''avg_speed_kmh'' \<in> set (feature_columns E)
        \<and> ''avg_speed_kmh'' \<notin> set (encoder_feature_names_in E)
       \<longrightarrow> map_of input_df ''avg_speed_kmh''
             = Some (Num (distance / max (order_prepare_time data * 0.6) 10 * 60)))"
proof -
  have 1: "feature_avg_speed_kmh data distance
      = distance / max (order_prepare_time data * 0.6) 10 * 60"
    by (rule feature_avg_speed_kmh_eq)
  have 2: "map_of (features data distance) ''avg_speed_kmh''
      = Some (Num (distance / max (order_prepare_time data * 0.6) 10 * 60))"
    using features_avg_speed_kmh [of data distance] by (simp only: 1)
  have 3: "map_of input_df ''avg_speed_kmh''
      = Some (Num (distance / max (order_prepare_time data * 0.6) 10 * 60))"
    if p: "prepare_features_for_prediction E data distance = Inr input_df"
      and f: "''avg_speed_kmh'' \<in> set (feature_columns E)"
      and c: "''avg_speed_kmh'' \<notin> set (encoder_feature_names_in E)"
  proof -
    from p prepare_features_characterisation [of E data distance]
    obtain enc where enc: "encode_categoricals E (features data distance) = Inr enc"
      and v: "\<forall>col \<in> set (feature_columns E).
                 map_of input_df col =
                   (if col \<in> set (df_columns (features data distance))
                    then map_of enc col else Some (Num 0))"
      by (auto split: sum.splits)
    have "''avg_speed_kmh'' \<in> set (df_columns (features data distance))"
      by (simp add: features_columns)
    with v f have "map_of input_df ''avg_speed_kmh'' = map_of enc ''avg_speed_kmh''"
      by simp
    also have "\<dots> = map_of (features data distance) ''avg_speed_kmh''"
      using enc c by (rule encode_categoricals_untouched)
    finally show ?thesis by (simp only: 2)
  qed
  from 1 2 3 show ?thesis by blast
qed

theorem avg_speed_kmh_feature_witness:
  "feature_avg_speed_kmh sample_request 2.22 = 2.22 / max (15 * 0.6) 10 * 60
   \<and> map_of (features sample_request 2.22) ''avg_speed_kmh''
       = Some (Num (2.22 / max (15 * 0.6) 10 * 60))
   \<and> prepare_features_for_prediction sample_env sample_request 2.22 =
       Inr [(''distance'', Num 2.22), (''traffic_index'', Num 0),
            (''Weather_conditions'', Num 5), (''avg_speed_kmh'', Num 13.32)]
   \<and> ''avg_speed_kmh'' \<in> set (feature_columns sample_env)
   \<and> ''avg_speed_kmh'' \<notin> set (encoder_feature_names_in sample_env)
   \<and> map_of [(''distance'', Num 2.22), (''traffic_index'', Num 0),
            (''Weather_conditions'', Num 5), (''avg_speed_kmh'', Num 13.32)] ''avg_speed_kmh''
       = Some (Num (2.22 / max (15 * 0.6) 10 * 60))"
proof -
  note t = avg_speed_kmh_feature [of sample_request "2.22" sample_env
      "[(''distance'', Num 2.22), (''traffic_index'', Num 0),
        (''Weather_conditions'', Num 5), (''avg_speed_kmh'', Num 13.32)]"]
  have p: "order_prepare_time sample_request = 15"
    by (simp add: sample_request_def)
  have m: "''avg_speed_kmh'' \<in> set (feature_columns sample_env)"
    by (simp add: sample_env_def)
  have n: "''avg_speed_kmh'' \<notin> set (encoder_feature_names_in sample_env)"
    by (simp add: sample_env_def)
  from t sample_prepare m n show ?thesis
    unfolding p by blast
qed

text \<open>
  C9: the estimate \<open>max(order_prepare_time * 0.6, 10)\<close> is at least 10, so the guard
  \<open>estimated_delivery_time > 0\<close> holds for every input, the fallback value 20 is never
  taken, and the feature is always the quotient.
\<close>

theorem avg_speed_fallback_unreachable:
  "feature_estimated_delivery_time data = max (order_prepare_time data * 0.6) 10
   \<and> 10 \<le> feature_estimated_delivery_time data
   \<and> feature_estimated_delivery_time data > 0
   \<and> feature_avg_speed_kmh data distance
       = (distance / feature_estimated_delivery_time data) * 60"
  by (simp add: feature_avg_speed_kmh_def Let_def feature_estimated_delivery_time_def
      less_max_iff_disj)

subsection \<open>The coordinate endpoint\<close>

lemma predict_delivery_time_InrD:
  assumes "snd (predict_delivery_time E request) = Inr result"
  shows "\<exists>distance input_df prediction.
           calculate_distance (restaurant_latitude request) (restaurant_longitude request)
             (delivery_latitude request) (delivery_longitude request) = Inr distance
         \<and> 0 < distance \<and> distance \<le> 100
         \<and> prepare_features_for_prediction E request distance = Inr input_df
         \<and> model_predict E input_df = Inr prediction
         \<and> fst (predict_delivery_time E request) = [ModelPredict input_df]
         \<and> result = build_response E request distance prediction"
  using assms
  by (auto simp: predict_delivery_time_def predict_delivery_time_try_def reraise_500_def
      split: sum.splits if_splits exn.splits)

lemma sample_prepare': "prepare_features_for_prediction sample_env sample_request 2.22 = Inr sample_frame"
  unfolding sample_frame_def by (rule sample_prepare)

lemma sample_model_frame: "model_predict sample_env sample_frame = Inr 27.0067"
  by (simp add: sample_env_def sample_model_def sample_frame_def)

lemma sample_build: "build_response sample_env sample_request 2.22 27.0067 = sample_response"
  by (simp add: build_response_def np_clip_def breakdown_estimated_delivery_time_def
      breakdown_avg_speed_def py_round_def round_half_even_def sample_env_def sample_request_def
      sample_response_def)

lemma sample_distance:
  "calculate_distance (restaurant_latitude sample_request) (restaurant_longitude sample_request)
     (delivery_latitude sample_request) (delivery_longitude sample_request) = Inr 2.22"
  using calculate_distance_2km by (simp add: sample_request_def)

lemma sample_predict:
  "predict_delivery_time sample_env sample_request = ([ModelPredict sample_frame], Inr sample_response)"
  using sample_distance sample_prepare' sample_model_frame sample_build
  by (simp add: predict_delivery_time_def predict_delivery_time_try_def reraise_500_def)

lemma next_door_distance:
  "calculate_distance (restaurant_latitude next_door_request) (restaurant_longitude next_door_request)
     (delivery_latitude next_door_request) (delivery_longitude next_door_request) = Inr 0.01"
  using calculate_distance_11m by (simp add: next_door_request_def sample_request_def)

lemma next_door_prepare:
  "prepare_features_for_prediction sample_env next_door_request 0.01 = Inr next_door_frame"
  by (simp add: prepare_features_for_prediction_def features_def encode_categoricals_def
      sample_env_def sample_transform_def df_columns_def sample_request_def next_door_request_def
      feature_avg_speed_kmh_def feature_estimated_delivery_time_def next_door_frame_def)

lemma next_door_model_frame: "model_predict sample_env next_door_frame = Inr 18.1667"
  by (simp add: sample_env_def sample_model_def next_door_frame_def)

lemma next_door_build:
  "build_response sample_env next_door_request 0.01 18.1667 = next_door_response"
  by (simp add: build_response_def np_clip_def breakdown_estimated_delivery_time_def
      breakdown_avg_speed_def py_round_def round_half_even_def sample_env_def sample_request_def
      next_door_request_def next_door_response_def)

lemma next_door_predict:
  "predict_delivery_time sample_env next_door_request
     = ([ModelPredict next_door_frame], Inr next_door_response)"
  using next_door_distance next_door_prepare next_door_model_frame next_door_build
  by (simp add: predict_delivery_time_def predict_delivery_time_try_def reraise_500_def)

lemma next_door_valid: "DeliveryRequest_valid next_door_request"
  by (simp add: DeliveryRequest_valid_def order_context_valid_def next_door_request_def
      sample_request_def)

lemma sample_valid: "DeliveryRequest_valid sample_request"
  by (simp add: DeliveryRequest_valid_def order_context_valid_def sample_request_def)

lemma build_response_total_range:
  "25 \<le> predicted_delivery_time_minutes (build_response E request distance prediction)
   \<and> predicted_delivery_time_minutes (build_response E request distance prediction) \<le> 140"
proof -
  have c: "5 \<le> np_clip prediction 5 120" "np_clip prediction 5 120 \<le> 120"
    by (simp_all add: np_clip_def)
  have "py_round 25 2 \<le> py_round (np_clip prediction 5 120 + 20) 2"
    using c by (intro py_round_mono) simp
  moreover have "py_round (np_clip prediction 5 120 + 20) 2 \<le> py_round 140 2"
    using c by (intro py_round_mono) simp
  ultimately show ?thesis
    by (simp add: build_response_def Let_def py_round_numeral)
qed

text \<open>
  C1: for every accepted coordinate request, \<open>predicted_delivery_time_minutes\<close> is the
  model's output for the assembled features, clamped to \<open>[5, 120]\<close>, plus 20, rounded to
  2 decimal places; it lies in \<open>[25, 140]\<close>.
\<close>

theorem predicted_delivery_time_minutes_clamped_plus_20:
  assumes "snd (predict_delivery_time E request) = Inr result"
  shows "(\<exists>distance input_df prediction.
            calculate_distance (restaurant_latitude request) (restaurant_longitude request)
              (delivery_latitude request) (delivery_longitude request) = Inr distance
          \<and> prepare_features_for_prediction E request distance = Inr input_df
          \<and> model_predict E input_df = Inr prediction
          \<and> predicted_delivery_time_minutes result
              = py_round (np_clip prediction 5 120 + 20) 2)
         \<and> 25 \<le> predicted_delivery_time_minutes result
         \<and> predicted_delivery_time_minutes result \<le> 140"
proof -
  from predict_delivery_time_InrD [OF assms]
  obtain distance input_df prediction where
    d: "calculate_distance (restaurant_latitude request) (restaurant_longitude request)
          (delivery_latitude request) (delivery_longitude request) = Inr distance"
    and p: "prepare_features_for_prediction E request distance = Inr input_df"
    and m: "model_predict E input_df = Inr prediction"
    and r: "result = build_response E request distance prediction"
    by blast
  have "predicted_delivery_time_minutes result = py_round (np_clip prediction 5 120 + 20) 2"
    by (simp add: r build_response_def Let_def)
  with d p m build_response_total_range [of E request distance prediction] r
  show ?thesis by blast
qed

theorem predicted_delivery_time_minutes_clamped_plus_20_witness:
  "snd (predict_delivery_time sample_env sample_request) = Inr sample_response
   \<and> model_predict sample_env sample_frame = Inr 27.0067
   \<and> py_round (np_clip 27.0067 5 120 + 20) 2 = 47.01
   \<and> predicted_delivery_time_minutes sample_response = 47.01
   \<and> 25 \<le> predicted_delivery_time_minutes sample_response
   \<and> predicted_delivery_time_minutes sample_response \<le> 140"
proof -
  have s: "snd (predict_delivery_time sample_env sample_request) = Inr sample_response"
    by (simp add: sample_predict)
  note t = predicted_delivery_time_minutes_clamped_plus_20 [OF s]
  have "py_round (np_clip 27.0067 5 120 + 20) 2 = 47.01"
    by (simp add: np_clip_def py_round_def round_half_even_def)
  moreover have "predicted_delivery_time_minutes sample_response = 47.01"
    by (simp add: sample_response_def)
  ultimately show ?thesis
    using s t sample_model_frame by simp
qed

text \<open>
  C2 as stated leaves the rounding of the two breakdown fields out. For the sample request
  the model answers 27.0067, so the clamped prediction plus the preparation minutes is
  42.0067, while the field \<open>estimated_delivery_time_minutes\<close> is 42.01; and
  \<open>average_speed_kmh\<close> is 3.17, which is not the distance over the reported minutes
  times 60.
\<close>

theorem breakdown_unrounded_counterexample:
  "snd (predict_delivery_time sample_env sample_request) = Inr sample_response
   \<and> fst (predict_delivery_time sample_env sample_request) = [ModelPredict sample_frame]
   \<and> model_predict sample_env sample_frame = Inr 27.0067
   \<and> np_clip 27.0067 5 120 + order_prepare_time sample_request = 42.0067
   \<and> estimated_delivery_time_minutes (breakdown sample_response) = 42.01
   \<and> estimated_delivery_time_minutes (breakdown sample_response)
       \<noteq> np_clip 27.0067 5 120 + order_prepare_time sample_request
   \<and> average_speed_kmh (breakdown sample_response) = 3.17
   \<and> average_speed_kmh (breakdown sample_response)
       \<noteq> calculated_distance_km sample_response
           / estimated_delivery_time_minutes (breakdown sample_response) * 60"
  by (simp add: sample_predict sample_model_frame)
     (simp add: sample_response_def sample_request_def np_clip_def)

text \<open>
  C2, amended: for every accepted coordinate request, \<open>estimated_delivery_time_minutes\<close>
  is the pre-offset clamped prediction plus the preparation minutes, rounded to 2 decimal
  places, and \<open>average_speed_kmh\<close> is the distance over that unrounded sum times 60,
  rounded to 2 decimal places, when the sum is positive, and 0 when it is not.
\<close>

theorem breakdown_rounded:
  assumes "snd (predict_delivery_time E request) = Inr result"
  shows "\<exists>distance input_df prediction.
            calculate_distance (restaurant_latitude request) (restaurant_longitude request)
              (delivery_latitude request) (delivery_longitude request) = Inr distance
          \<and> prepare_features_for_prediction E request distance = Inr input_df
          \<and> model_predict E input_df = Inr prediction
          \<and> estimated_delivery_time_minutes (breakdown result)
              = py_round (np_clip prediction 5 120 + order_prepare_time request) 2
          \<and> average_speed_kmh (breakdown result)
              = (if 0 < np_clip prediction 5 120 + order_prepare_time request
                 then py_round
                        (distance / (np_clip prediction 5 120 + order_prepare_time request) * 60) 2
                 else 0)"
proof -
  from predict_delivery_time_InrD [OF assms]
  obtain distance input_df prediction where
    d: "calculate_distance (restaurant_latitude request) (restaurant_longitude request)
          (delivery_latitude request) (delivery_longitude request) = Inr distance"
    and p: "prepare_features_for_prediction E request distance = Inr input_df"
    and m: "model_predict E input_df = Inr prediction"
    and r: "result = build_response E request distance prediction"
    by blast
  have "estimated_delivery_time_minutes (breakdown result)
      = py_round (np_clip prediction 5 120 + order_prepare_time request) 2"
    by (simp add: r build_response_def Let_def breakdown_estimated_delivery_time_def)
  moreover have "average_speed_kmh (breakdown result)
      = (if 0 < np_clip prediction 5 120 + order_prepare_time request
         then py_round
                (distance / (np_clip prediction 5 120 + order_prepare_time request) * 60) 2
         else 0)"
    by (simp add: r build_response_def Let_def breakdown_estimated_delivery_time_def
        breakdown_avg_speed_def py_round_zero)
  ultimately show ?thesis
    using d p m by blast
qed

theorem breakdown_rounded_witness:
  "snd (predict_delivery_time sample_env sample_request) = Inr sample_response
   \<and> model_predict sample_env sample_frame = Inr 27.0067
   \<and> estimated_delivery_time_minutes (breakdown sample_response)
       = py_round (np_clip 27.0067 5 120 + order_prepare_time sample_request) 2
   \<and> 0 < np_clip 27.0067 5 120 + order_prepare_time sample_request
   \<and> average_speed_kmh (breakdown sample_response)
       = py_round (2.22 / (np_clip 27.0067 5 120 + order_prepare_time sample_request) * 60) 2"
proof -
  have s: "snd (predict_delivery_time sample_env sample_request) = Inr sample_response"
    by (simp add: sample_predict)
  from breakdown_rounded [OF s]
  obtain distance input_df prediction where
    d: "calculate_distance (restaurant_latitude sample_request)
          (restaurant_longitude sample_request) (delivery_latitude sample_request)
          (delivery_longitude sample_request) = Inr distance"
    and p: "prepare_features_for_prediction sample_env sample_request distance = Inr input_df"
    and m: "model_predict sample_env input_df = Inr prediction"
    and e: "estimated_delivery_time_minutes (breakdown sample_response)
              = py_round (np_clip prediction 5 120 + order_prepare_time sample_request) 2"
    and a: "average_speed_kmh (breakdown sample_response)
              = (if 0 < np_clip prediction 5 120 + order_prepare_time sample_request
                 then py_round
                        (distance / (np_clip prediction 5 120
                           + order_prepare_time sample_request) * 60) 2
                 else 0)"
    by blast
  from d sample_distance have dd: "distance = 2.22" by simp
  with p sample_prepare' have "input_df = sample_frame" by simp
  with m sample_model_frame have pp: "prediction = 27.0067" by simp
  have pos: "0 < np_clip 27.0067 5 120 + order_prepare_time sample_request"
    by (simp add: np_clip_def sample_request_def)
  from e a pos show ?thesis
    unfolding dd pp using s sample_model_frame by simp
qed

lemma predict_delivery_time_too_far:
  assumes "calculate_distance (restaurant_latitude request) (restaurant_longitude request)
             (delivery_latitude request) (delivery_longitude request) = Inr distance"
    and "100 < distance"
  shows "predict_delivery_time E request =
           ([], Inl (HTTPException 400
                      (''Distance too large ('' @ format_2f distance
                       @ '' km). Maximum 100km for delivery.'')))"
  using assms
  by (simp add: predict_delivery_time_def predict_delivery_time_try_def reraise_500_def)

lemma predict_delivery_time_zero:
  assumes "calculate_distance (restaurant_latitude request) (restaurant_longitude request)
             (delivery_latitude request) (delivery_longitude request) = Inr distance"
    and "distance \<le> 0"
  shows "predict_delivery_time E request =
           ([], Inl (HTTPException 400 ''Invalid coordinates - distance is zero''))"
  using assms
  by (simp add: predict_delivery_time_def predict_delivery_time_try_def reraise_500_def)

lemma predict_delivery_time_in_range:
  assumes "calculate_distance (restaurant_latitude request) (restaurant_longitude request)
             (delivery_latitude request) (delivery_longitude request) = Inr distance"
    and "0 < distance" "distance \<le> 100"
  shows "\<not> client_error (snd (predict_delivery_time E request))"
  using assms
  by (simp add: predict_delivery_time_def predict_delivery_time_try_def reraise_500_def
      client_error_def split: sum.splits)

lemma format_222: "format_2f 222.39 = ''222.39''"
  by (simp add: format_2f_def round_half_even_def str_nat.simps [of 222]
      str_nat.simps [of 22] str_nat.simps [of 2] digit_char_def)

lemma far_distance:
  "calculate_distance (restaurant_latitude far_request) (restaurant_longitude far_request)
     (delivery_latitude far_request) (delivery_longitude far_request) = Inr 222.39"
  using calculate_distance_222km by (simp add: far_request_def sample_request_def)

lemma calculate_distance_raises:
  "calculate_distance lat1 lon1 lat2 lon2 = Inl e \<Longrightarrow> e = PyException ''math domain error''"
  by (auto simp: calculate_distance_def py_sqrt_def Let_def split: if_splits)

lemma predict_delivery_time_distance_raises:
  assumes "calculate_distance (restaurant_latitude request) (restaurant_longitude request)
             (delivery_latitude request) (delivery_longitude request) = Inl e"
  shows "\<not> client_error (snd (predict_delivery_time E request))"
  using assms calculate_distance_raises [OF assms]
  by (simp add: predict_delivery_time_def predict_delivery_time_try_def reraise_500_def
      client_error_def)

text \<open>
  C3: the coordinate endpoint answers with a client error exactly when the distance has
  been computed and is \<open>\<le> 0\<close> or \<open>> 100\<close>; when \<open>calculate_distance\<close> raises instead, the
  answer is not a client error. For a computed distance above 100 km the detail of the
  error contains the formatted distance; equal coordinates have the computed distance 0
  and take the \<open>\<le> 0\<close> branch; an accepted request has a computed distance with
  \<open>0 < distance \<le> 100\<close> and reports it unchanged.
\<close>

theorem distance_validation:
  "(client_error (snd (predict_delivery_time E request)) \<longleftrightarrow>
      (\<exists>distance.
          calculate_distance (restaurant_latitude request) (restaurant_longitude request)
            (delivery_latitude request) (delivery_longitude request) = Inr distance
          \<and> (distance \<le> 0 \<or> 100 < distance)))
   \<and> (\<forall>distance.
        calculate_distance (restaurant_latitude request) (restaurant_longitude request)
          (delivery_latitude request) (delivery_longitude request) = Inr distance
        \<and> 100 < distance \<longrightarrow>
        (\<exists>detail. predict_delivery_time E request = ([], Inl (HTTPException 400 detail))
           \<and> sublist (format_2f distance) detail))
   \<and> (\<forall>distance.
        calculate_distance (restaurant_latitude request) (restaurant_longitude request)
          (delivery_latitude request) (delivery_longitude request) = Inr distance
        \<and> distance \<le> 0 \<longrightarrow>
        predict_delivery_time E request
          = ([], Inl (HTTPException 400 ''Invalid coordinates - distance is zero'')))
   \<and> (restaurant_latitude request = delivery_latitude request
        \<and> restaurant_longitude request = delivery_longitude request \<longrightarrow>
        calculate_distance (restaurant_latitude request) (restaurant_longitude request)
          (delivery_latitude request) (delivery_longitude request) = Inr 0
        \<and> predict_delivery_time E request
            = ([], Inl (HTTPException 400 ''Invalid coordinates - distance is zero'')))
   \<and> (\<forall>result. snd (predict_delivery_time E request) = Inr result \<longrightarrow>
        (\<exists>distance.
            calculate_distance (restaurant_latitude request) (restaurant_longitude request)
              (delivery_latitude request) (delivery_longitude request) = Inr distance
            \<and> 0 < distance \<and> distance \<le> 100 \<and> calculated_distance_km result = distance))"
proof -
  let ?c = "calculate_distance (restaurant_latitude request) (restaurant_longitude request)
              (delivery_latitude request) (delivery_longitude request)"
  have far: "\<exists>detail. predict_delivery_time E request = ([], Inl (HTTPException 400 detail))
            \<and> sublist (format_2f distance) detail"
    if "?c = Inr distance" "100 < distance" for distance
  proof -
    have "sublist (format_2f distance)
            (''Distance too large ('' @ format_2f distance
             @ '' km). Maximum 100km for delivery.'')"
      by (rule sublist_appendI)
    with predict_delivery_time_too_far [OF that, of E] show ?thesis by blast
  qed
  have zero: "predict_delivery_time E request
           = ([], Inl (HTTPException 400 ''Invalid coordinates - distance is zero''))"
    if "?c = Inr distance" "distance \<le> 0" for distance
    using that by (rule predict_delivery_time_zero)
  have iff: "client_error (snd (predict_delivery_time E request))
      \<longleftrightarrow> (\<exists>distance. ?c = Inr distance \<and> (distance \<le> 0 \<or> 100 < distance))"
  proof (cases ?c)
    case (Inl e)
    then show ?thesis
      using predict_delivery_time_distance_raises [of request e E] by simp
  next
    case (Inr distance)
    show ?thesis
    proof (cases "distance \<le> 0 \<or> 100 < distance")
      case True
      then show ?thesis
        using Inr far [OF Inr] zero [OF Inr] by (auto simp: client_error_def)
    next
      case False
      then show ?thesis
        using Inr predict_delivery_time_in_range [OF Inr, of E] by auto
    qed
  qed
  have same: "?c = Inr 0
        \<and> predict_delivery_time E request
            = ([], Inl (HTTPException 400 ''Invalid coordinates - distance is zero''))"
    if eq: "restaurant_latitude request = delivery_latitude request
         \<and> restaurant_longitude request = delivery_longitude request"
  proof -
    have c0: "?c = Inr 0"
      using eq calculate_distance_same [of "delivery_latitude request" "delivery_longitude request"]
      by simp
    from zero [OF c0] c0 show ?thesis by simp
  qed
  have acc: "\<exists>distance. ?c = Inr distance
            \<and> 0 < distance \<and> distance \<le> 100 \<and> calculated_distance_km result = distance"
    if "snd (predict_delivery_time E request) = Inr result" for result
    using predict_delivery_time_InrD [OF that]
    by (auto simp: build_response_def Let_def)
  from far zero iff same acc show ?thesis by blast
qed

theorem distance_validation_witness:
  "calculate_distance (restaurant_latitude far_request) (restaurant_longitude far_request)
     (delivery_latitude far_request) (delivery_longitude far_request) = Inr 222.39
   \<and> predict_delivery_time sample_env far_request
       = ([], Inl (HTTPException 400
                    ''Distance too large (222.39 km). Maximum 100km for delivery.''))
   \<and> sublist (format_2f 222.39)
         ''Distance too large (222.39 km). Maximum 100km for delivery.''
   \<and> client_error (snd (predict_delivery_time sample_env far_request))
   \<and> restaurant_latitude same_place_request = delivery_latitude same_place_request
   \<and> restaurant_longitude same_place_request = delivery_longitude same_place_request
   \<and> predict_delivery_time sample_env same_place_request
       = ([], Inl (HTTPException 400 ''Invalid coordinates - distance is zero''))
   \<and> client_error (snd (predict_delivery_time sample_env same_place_request))
   \<and> snd (predict_delivery_time sample_env sample_request) = Inr sample_response
   \<and> calculate_distance (restaurant_latitude sample_request) (restaurant_longitude sample_request)
       (delivery_latitude sample_request) (delivery_longitude sample_request) = Inr 2.22
   \<and> \<not> client_error (snd (predict_delivery_time sample_env sample_request))
   \<and> calculated_distance_km sample_response = 2.22"
proof -
  note far_thm = distance_validation [of sample_env far_request]
  have big: "(100 :: real) < 222.39" by simp
  from far_thm far_distance big
  obtain detail where
    fd: "predict_delivery_time sample_env far_request = ([], Inl (HTTPException 400 detail))"
    and fs: "sublist (format_2f 222.39) detail"
    by blast
  have "predict_delivery_time sample_env far_request
     = ([], Inl (HTTPException 400
                  (''Distance too large ('' @ format_2f 222.39
                   @ '' km). Maximum 100km for delivery.'')))"
    using far_distance by (rule predict_delivery_time_too_far) simp
  then have far: "predict_delivery_time sample_env far_request
     = ([], Inl (HTTPException 400
                  ''Distance too large (222.39 km). Maximum 100km for delivery.''))"
    using format_222 by simp
  from fd far have "detail = ''Distance too large (222.39 km). Maximum 100km for delivery.''"
    by simp
  with fs have fsub: "sublist (format_2f 222.39)
         ''Distance too large (222.39 km). Maximum 100km for delivery.''"
    by simp
  from far_thm far_distance big
  have fcc: "client_error (snd (predict_delivery_time sample_env far_request))"
    by blast
  note same_thm = distance_validation [of sample_env same_place_request]
  have eq1: "restaurant_latitude same_place_request = delivery_latitude same_place_request"
    and eq2: "restaurant_longitude same_place_request = delivery_longitude same_place_request"
    by (simp_all add: same_place_request_def sample_request_def)
  from same_thm eq1 eq2
  have c0: "calculate_distance (restaurant_latitude same_place_request)
           (restaurant_longitude same_place_request) (delivery_latitude same_place_request)
           (delivery_longitude same_place_request) = Inr 0"
    and z: "predict_delivery_time sample_env same_place_request
       = ([], Inl (HTTPException 400 ''Invalid coordinates - distance is zero''))"
    by blast+
  have "(0 :: real) \<le> 0" by simp
  with same_thm c0
  have zc: "client_error (snd (predict_delivery_time sample_env same_place_request))"
    by blast
  note ok_thm = distance_validation [of sample_env sample_request]
  have s: "snd (predict_delivery_time sample_env sample_request) = Inr sample_response"
    by (simp add: sample_predict)
  from ok_thm s obtain d3 where
    d3: "calculate_distance (restaurant_latitude sample_request)
           (restaurant_longitude sample_request) (delivery_latitude sample_request)
           (delivery_longitude sample_request) = Inr d3"
    and r3: "0 < d3" "d3 \<le> 100" "calculated_distance_km sample_response = d3"
    by blast
  from d3 sample_distance have v3: "d3 = 2.22" by simp
  have a: "\<not> client_error (snd (predict_delivery_time sample_env sample_request))"
  proof
    assume "client_error (snd (predict_delivery_time sample_env sample_request))"
    with ok_thm obtain d where
      "calculate_distance (restaurant_latitude sample_request)
           (restaurant_longitude sample_request) (delivery_latitude sample_request)
           (delivery_longitude sample_request) = Inr d" "d \<le> 0 \<or> 100 < d"
      by blast
    with d3 r3 show False by simp
  qed
  from r3 have c: "calculated_distance_km sample_response = 2.22"
    by (simp only: v3)
  from far_distance far fsub fcc eq1 eq2 z zc s sample_distance a c show ?thesis by blast
qed

text \<open>
  C10 as stated fails for the reported value: the request next door is valid and accepted
  with distance 0.01 km, and its speed 0.01 / 168.1667 * 60 rounds to the reported
  \<open>average_speed_kmh = 0\<close>.
\<close>

theorem reported_average_speed_zero_counterexample:
  "DeliveryRequest_valid next_door_request
   \<and> predict_delivery_time sample_env next_door_request
       = ([ModelPredict next_door_frame], Inr next_door_response)
   \<and> calculated_distance_km next_door_response = 0.01
   \<and> 0 < calculated_distance_km next_door_response
   \<and> average_speed_kmh (breakdown next_door_response) = 0"
  by (simp add: next_door_valid next_door_predict) (simp add: next_door_response_def)

text \<open>
  C10, amended: for every valid accepted request the denominator (clamped prediction plus
  preparation minutes) is at least 5, so the zero branch is not taken and the average speed
  before rounding is strictly positive; the reported \<open>average_speed_kmh\<close>, its rounding to
  2 decimal places, is non-negative.
\<close>

theorem breakdown_denominator_at_least_5:
  assumes "DeliveryRequest_valid request"
    and "snd (predict_delivery_time E request) = Inr result"
  shows "\<exists>distance input_df prediction.
            calculate_distance (restaurant_latitude request) (restaurant_longitude request)
              (delivery_latitude request) (delivery_longitude request) = Inr distance
          \<and> prepare_features_for_prediction E request distance = Inr input_df
          \<and> model_predict E input_df = Inr prediction
          \<and> 0 < distance
          \<and> 5 \<le> breakdown_estimated_delivery_time (np_clip prediction 5 120)
                   (order_prepare_time request)
          \<and> breakdown_avg_speed distance
               (breakdown_estimated_delivery_time (np_clip prediction 5 120)
                  (order_prepare_time request))
              = distance / (np_clip prediction 5 120 + order_prepare_time request) * 60
          \<and> 0 < breakdown_avg_speed distance
                   (breakdown_estimated_delivery_time (np_clip prediction 5 120)
                      (order_prepare_time request))
          \<and> average_speed_kmh (breakdown result)
              = py_round (breakdown_avg_speed distance
                   (breakdown_estimated_delivery_time (np_clip prediction 5 120)
                      (order_prepare_time request))) 2
          \<and> 0 \<le> average_speed_kmh (breakdown result)"
proof -
  from predict_delivery_time_InrD [OF assms(2)]
  obtain distance input_df prediction where
    d: "calculate_distance (restaurant_latitude request) (restaurant_longitude request)
          (delivery_latitude request) (delivery_longitude request) = Inr distance"
    and pos: "0 < distance"
    and p: "prepare_features_for_prediction E request distance = Inr input_df"
    and m: "model_predict E input_df = Inr prediction"
    and r: "result = build_response E request distance prediction"
    by blast
  define est where "est = breakdown_estimated_delivery_time (np_clip prediction 5 120)
                            (order_prepare_time request)"
  have prep: "0 \<le> order_prepare_time request"
    using assms(1) by (simp add: DeliveryRequest_valid_def order_context_valid_def)
  have "5 \<le> np_clip prediction 5 120" by (simp add: np_clip_def)
  with prep have e5: "5 \<le> est"
    by (simp add: est_def breakdown_estimated_delivery_time_def)
  have est_eq: "est = np_clip prediction 5 120 + order_prepare_time request"
    by (simp add: est_def breakdown_estimated_delivery_time_def)
  from e5 have sp': "breakdown_avg_speed distance est = distance / est * 60"
    by (simp add: breakdown_avg_speed_def)
  then have sp: "breakdown_avg_speed distance est
      = distance / (np_clip prediction 5 120 + order_prepare_time request) * 60"
    by (simp only: est_eq [symmetric])
  have spos: "0 < breakdown_avg_speed distance est"
    using pos e5 by (simp add: sp')
  have rep: "average_speed_kmh (breakdown result) = py_round (breakdown_avg_speed distance est) 2"
    by (simp add: r build_response_def Let_def est_def)
  have "py_round 0 2 \<le> py_round (breakdown_avg_speed distance est) 2"
    using spos by (intro py_round_mono) simp
  then have nn: "0 \<le> average_speed_kmh (breakdown result)"
    by (simp add: rep py_round_zero)
  from d p m pos e5 sp spos rep nn show ?thesis
    unfolding est_def by blast
qed

theorem breakdown_denominator_at_least_5_witness:
  "DeliveryRequest_valid next_door_request
   \<and> snd (predict_delivery_time sample_env next_door_request) = Inr next_door_response
   \<and> model_predict sample_env next_door_frame = Inr 18.1667
   \<and> 5 \<le> breakdown_estimated_delivery_time (np_clip 18.1667 5 120)
            (order_prepare_time next_door_request)
   \<and> breakdown_estimated_delivery_time (np_clip 18.1667 5 120)
            (order_prepare_time next_door_request) = 168.1667
   \<and> 0 < breakdown_avg_speed 0.01
            (breakdown_estimated_delivery_time (np_clip 18.1667 5 120)
               (order_prepare_time next_door_request))
   \<and> average_speed_kmh (breakdown next_door_response)
       = py_round (breakdown_avg_speed 0.01
            (breakdown_estimated_delivery_time (np_clip 18.1667 5 120)
               (order_prepare_time next_door_request))) 2
   \<and> 0 \<le> average_speed_kmh (breakdown next_door_response)"
proof -
  have s: "snd (predict_delivery_time sample_env next_door_request) = Inr next_door_response"
    by (simp add: next_door_predict)
  from breakdown_denominator_at_least_5 [OF next_door_valid s]
  obtain distance input_df prediction where
    d: "calculate_distance (restaurant_latitude next_door_request)
          (restaurant_longitude next_door_request) (delivery_latitude next_door_request)
          (delivery_longitude next_door_request) = Inr distance"
    and p: "prepare_features_for_prediction sample_env next_door_request distance = Inr input_df"
    and m: "model_predict sample_env input_df = Inr prediction"
    and e: "5 \<le> breakdown_estimated_delivery_time (np_clip prediction 5 120)
                   (order_prepare_time next_door_request)"
    and sp: "0 < breakdown_avg_speed distance
                   (breakdown_estimated_delivery_time (np_clip prediction 5 120)
                      (order_prepare_time next_door_request))"
    and rep: "average_speed_kmh (breakdown next_door_response)
              = py_round (breakdown_avg_speed distance
                   (breakdown_estimated_delivery_time (np_clip prediction 5 120)
                      (order_prepare_time next_door_request))) 2"
    and nn: "0 \<le> average_speed_kmh (breakdown next_door_response)"
    by blast
  from d next_door_distance have dd: "distance = 0.01" by simp
  with p next_door_prepare have "input_df = next_door_frame" by simp
  with m next_door_model_frame have pp: "prediction = 18.1667" by simp
  have v: "breakdown_estimated_delivery_time (np_clip 18.1667 5 120)
            (order_prepare_time next_door_request) = 168.1667"
    by (simp add: breakdown_estimated_delivery_time_def np_clip_def next_door_request_def
        sample_request_def)
  from e sp rep nn v next_door_valid s next_door_model_frame show ?thesis
    unfolding dd pp by blast
qed

subsection \<open>Geocoding and the address endpoint\<close>

lemma geocode_address_calls: "fst (geocode_address E address api_key) = [HttpGet address api_key]"
  by (simp add: geocode_address_def)

lemma geocode_address_not_found:
  assumes "requests_get E address api_key = Inr response"
    and "status_code response \<noteq> 200 \<or> json response = Inr (Results [])"
  shows "geocode_address E address api_key = ([HttpGet address api_key], Inr None)"
  using assms by (auto simp: geocode_address_def)

lemma geocode_address_unavailable:
  assumes "requests_get E address api_key = Inl msg"
  shows "geocode_address E address api_key
           = ([HttpGet address api_key], Inl (HTTPException 500 (''Geocoding error: '' @ msg)))"
  using assms by (simp add: geocode_address_def)

lemma geocode_address_found:
  assumes "requests_get E address api_key = Inr response"
    and "status_code response = 200" "json response = Inr (Results (Some c # rest))"
  shows "geocode_address E address api_key = ([HttpGet address api_key], Inr (Some c))"
  using assms by (simp add: geocode_address_def)

text \<open>
  C8: when the service answers with a status other than 200, or with an empty result list,
  \<open>geocode_address\<close> returns \<open>None\<close> (a value); when the request itself fails (timeout,
  connection failure) it raises \<open>HTTPException 500\<close> with the detail \<open>Geocoding error: ...\<close>.
  The \<open>/geocode\<close> endpoint turns the first into status 400 and passes the second on, so
  the two are told apart.
\<close>

theorem geocode_not_found_versus_unavailable:
  "(\<forall>response. requests_get E address api_key = Inr response
       \<and> (status_code response \<noteq> 200 \<or> json response = Inr (Results [])) \<longrightarrow>
       geocode_address E address api_key = ([HttpGet address api_key], Inr None)
       \<and> snd (geocode_endpoint E address api_key)
           = Inl (HTTPException 400 ''Geocoding failed - check address and API key''))
   \<and> (\<forall>msg. requests_get E address api_key = Inl msg \<longrightarrow>
       geocode_address E address api_key
         = ([HttpGet address api_key], Inl (HTTPException 500 (''Geocoding error: '' @ msg)))
       \<and> snd (geocode_endpoint E address api_key)
           = Inl (HTTPException 500 (''Geocoding error: '' @ msg)))"
proof -
  have a: "geocode_address E address api_key = ([HttpGet address api_key], Inr None)
       \<and> snd (geocode_endpoint E address api_key)
           = Inl (HTTPException 400 ''Geocoding failed - check address and API key'')"
    if "requests_get E address api_key = Inr response"
      and "status_code response \<noteq> 200 \<or> json response = Inr (Results [])"
    for response
    using geocode_address_not_found [OF that]
    by (simp add: geocode_endpoint_def)
  have b: "geocode_address E address api_key
         = ([HttpGet address api_key], Inl (HTTPException 500 (''Geocoding error: '' @ msg)))
       \<and> snd (geocode_endpoint E address api_key)
           = Inl (HTTPException 500 (''Geocoding error: '' @ msg))"
    if "requests_get E address api_key = Inl msg" for msg
    using geocode_address_unavailable [OF that]
    by (simp add: geocode_endpoint_def)
  from a b show ?thesis by blast
qed

theorem geocode_not_found_versus_unavailable_witness:
  "requests_get sample_env ''Nowhere'' ''key''
     = Inr \<lparr>status_code = 200, json = Inr (Results [])\<rparr>
   \<and> geocode_address sample_env ''Nowhere'' ''key'' = ([HttpGet ''Nowhere'' ''key''], Inr None)
   \<and> requests_get sample_env ''Forbidden'' ''key''
       = Inr \<lparr>status_code = 403, json = Inl ''not JSON''\<rparr>
   \<and> geocode_address sample_env ''Forbidden'' ''key'' = ([HttpGet ''Forbidden'' ''key''], Inr None)
   \<and> snd (geocode_endpoint sample_env ''Forbidden'' ''key'')
       = Inl (HTTPException 400 ''Geocoding failed - check address and API key'')
   \<and> requests_get sample_env ''Elsewhere'' ''key'' = Inl ''connection timed out''
   \<and> geocode_address sample_env ''Elsewhere'' ''key''
       = ([HttpGet ''Elsewhere'' ''key''],
          Inl (HTTPException 500 ''Geocoding error: connection timed out''))
   \<and> snd (geocode_endpoint sample_env ''Elsewhere'' ''key'')
       = Inl (HTTPException 500 ''Geocoding error: connection timed out'')"
proof -
  have n: "requests_get sample_env ''Nowhere'' ''key''
     = Inr \<lparr>status_code = 200, json = Inr (Results [])\<rparr>"
    by (simp add: sample_env_def sample_get_def)
  have f: "requests_get sample_env ''Forbidden'' ''key''
       = Inr \<lparr>status_code = 403, json = Inl ''not JSON''\<rparr>"
    by (simp add: sample_env_def sample_get_def)
  have e: "requests_get sample_env ''Elsewhere'' ''key'' = Inl ''connection timed out''"
    by (simp add: sample_env_def sample_get_def)
  from geocode_not_found_versus_unavailable [of sample_env "''Nowhere''" "''key''"] n
  have 1: "geocode_address sample_env ''Nowhere'' ''key'' = ([HttpGet ''Nowhere'' ''key''], Inr None)"
    by simp
  from geocode_not_found_versus_unavailable [of sample_env "''Forbidden''" "''key''"] f
  have 2: "geocode_address sample_env ''Forbidden'' ''key'' = ([HttpGet ''Forbidden'' ''key''], Inr None)"
    and 3: "snd (geocode_endpoint sample_env ''Forbidden'' ''key'')
       = Inl (HTTPException 400 ''Geocoding failed - check address and API key'')"
    by simp_all
  from geocode_not_found_versus_unavailable [of sample_env "''Elsewhere''" "''key''"] e
  have 4: "geocode_address sample_env ''Elsewhere'' ''key''
       = ([HttpGet ''Elsewhere'' ''key''],
          Inl (HTTPException 500 ''Geocoding error: connection timed out''))"
    and 5: "snd (geocode_endpoint sample_env ''Elsewhere'' ''key'')
       = Inl (HTTPException 500 ''Geocoding error: connection timed out'')"
    by simp_all
  from n f e 1 2 3 4 5 show ?thesis by blast
qed

lemma predict_delivery_time_error_is_http:
  "snd (predict_delivery_time E request) = Inl e \<Longrightarrow> \<exists>status detail. e = HTTPException status detail"
  by (cases "predict_delivery_time_try E request")
     (auto simp: predict_delivery_time_def reraise_500_def split: sum.splits exn.splits)

lemma reraise_500_http:
  "reraise_500 msg_prefix (Inl (HTTPException status detail)) = Inl (HTTPException status detail)"
  by (simp add: reraise_500_def)

lemma reraise_500_Inr: "reraise_500 msg_prefix (Inr v) = Inr v"
  by (simp add: reraise_500_def)

lemma predict_with_addresses_restaurant_not_found:
  assumes "snd (geocode_address E (restaurant_address request) (opencage_api_key request)) = Inr None"
  shows "predict_with_addresses E request =
           ([HttpGet (restaurant_address request) (opencage_api_key request)],
            Inl (HTTPException 400 ''Failed to geocode restaurant address''))"
proof -
  have "geocode_address E (restaurant_address request) (opencage_api_key request)
      = ([HttpGet (restaurant_address request) (opencage_api_key request)], Inr None)"
    using assms geocode_address_calls [of E "restaurant_address request" "opencage_api_key request"]
    by (simp add: prod_eq_iff)
  then show ?thesis
    by (simp add: predict_with_addresses_def predict_with_addresses_try_def reraise_500_def)
qed

lemma predict_with_addresses_delivery_not_found:
  assumes "snd (geocode_address E (restaurant_address request) (opencage_api_key request))
             = Inr (Some rest_coords)"
    and "snd (geocode_address E (delivery_address request) (opencage_api_key request)) = Inr None"
  shows "predict_with_addresses E request =
           ([HttpGet (restaurant_address request) (opencage_api_key request),
             HttpGet (delivery_address request) (opencage_api_key request)],
            Inl (HTTPException 400 ''Failed to geocode delivery address''))"
proof -
  have "geocode_address E (restaurant_address request) (opencage_api_key request)
      = ([HttpGet (restaurant_address request) (opencage_api_key request)],
         Inr (Some rest_coords))"
    using assms(1)
      geocode_address_calls [of E "restaurant_address request" "opencage_api_key request"]
    by (simp add: prod_eq_iff)
  moreover have "geocode_address E (delivery_address request) (opencage_api_key request)
      = ([HttpGet (delivery_address request) (opencage_api_key request)], Inr None)"
    using assms(2)
      geocode_address_calls [of E "delivery_address request" "opencage_api_key request"]
    by (simp add: prod_eq_iff)
  ultimately show ?thesis
    by (simp add: predict_with_addresses_def predict_with_addresses_try_def reraise_500_def)
qed

lemma predict_with_addresses_delegates:
  assumes "snd (geocode_address E (restaurant_address request) (opencage_api_key request))
             = Inr (Some rest_coords)"
    and "snd (geocode_address E (delivery_address request) (opencage_api_key request))
             = Inr (Some del_coords)"
    and "DeliveryRequest_valid (coord_request request rest_coords del_coords)"
  shows "predict_with_addresses E request =
           ([HttpGet (restaurant_address request) (opencage_api_key request),
             HttpGet (delivery_address request) (opencage_api_key request)]
            @ fst (predict_delivery_time E (coord_request request rest_coords del_coords)),
            (case snd (predict_delivery_time E (coord_request request rest_coords del_coords)) of
               Inl e \<Rightarrow> Inl e
             | Inr result \<Rightarrow>
                 Inr (result\<lparr>geocoded_coordinates :=
                        Some \<lparr>restaurant = rest_coords, delivery = del_coords\<rparr>\<rparr>)))"
proof -
  have g1: "geocode_address E (restaurant_address request) (opencage_api_key request)
      = ([HttpGet (restaurant_address request) (opencage_api_key request)],
         Inr (Some rest_coords))"
    using assms(1)
      geocode_address_calls [of E "restaurant_address request" "opencage_api_key request"]
    by (simp add: prod_eq_iff)
  have g2: "geocode_address E (delivery_address request) (opencage_api_key request)
      = ([HttpGet (delivery_address request) (opencage_api_key request)],
         Inr (Some del_coords))"
    using assms(2)
      geocode_address_calls [of E "delivery_address request" "opencage_api_key request"]
    by (simp add: prod_eq_iff)
  obtain calls3 r3 where
    p: "predict_delivery_time E (coord_request request rest_coords del_coords) = (calls3, r3)"
    by (cases "predict_delivery_time E (coord_request request rest_coords del_coords)")
  show ?thesis
  proof (cases r3)
    case (Inl e)
    with p predict_delivery_time_error_is_http [of E "coord_request request rest_coords del_coords" e]
    obtain status detail where "e = HTTPException status detail" by auto
    with Inl p g1 g2 assms(3) show ?thesis
      by (simp add: predict_with_addresses_def predict_with_addresses_try_def reraise_500_def)
  next
    case (Inr result)
    with p g1 g2 assms(3) show ?thesis
      by (simp add: predict_with_addresses_def predict_with_addresses_try_def reraise_500_def)
  qed
qed

lemma coord_request_fields:
  "restaurant_latitude (coord_request request rest_coords del_coords) = latitude rest_coords
   \<and> restaurant_longitude (coord_request request rest_coords del_coords) = longitude rest_coords
   \<and> delivery_latitude (coord_request request rest_coords del_coords) = latitude del_coords
   \<and> delivery_longitude (coord_request request rest_coords del_coords) = longitude del_coords
   \<and> order_context.truncate (coord_request request rest_coords del_coords)
       = order_context.truncate request"
  by (simp add: coord_request_def order_context.truncate_def)

lemma sample_geocode_restaurant:
  "geocode_address sample_env ''Restaurant'' ''key''
     = ([HttpGet ''Restaurant'' ''key''],
        Inr (Some \<lparr>latitude = 22.745049, longitude = 75.892471\<rparr>))"
  by (simp add: geocode_address_def sample_env_def sample_get_def)

lemma sample_geocode_customer:
  "geocode_address sample_env ''Customer'' ''key''
     = ([HttpGet ''Customer'' ''key''],
        Inr (Some \<lparr>latitude = 22.765049, longitude = 75.892471\<rparr>))"
  by (simp add: geocode_address_def sample_env_def sample_get_def)

lemma sample_geocode_nowhere:
  "geocode_address sample_env ''Nowhere'' ''key'' = ([HttpGet ''Nowhere'' ''key''], Inr None)"
  by (simp add: geocode_address_def sample_env_def sample_get_def)

lemma sample_coord_request:
  "coord_request sample_address_request
     \<lparr>latitude = 22.745049, longitude = 75.892471\<rparr>
     \<lparr>latitude = 22.765049, longitude = 75.892471\<rparr> = sample_request"
  by (simp add: coord_request_def sample_address_request_def sample_request_def)

text \<open>
  C6: the address endpoint geocodes the restaurant address, then the delivery address. If
  either is not found it raises a client error (status 400) with only geocoder calls made,
  no model call. If both are found, the coordinate request is built from the two results
  and the remaining fields of the address request, the coordinate endpoint is called on
  it, and its result is returned with \<open>geocoded_coordinates\<close> set to the two results (its
  exception is passed on unchanged).
\<close>

theorem predict_with_addresses_geocodes_then_delegates:
  "(snd (geocode_address E (restaurant_address request) (opencage_api_key request)) = Inr None
      \<longrightarrow>
      predict_with_addresses E request =
        ([HttpGet (restaurant_address request) (opencage_api_key request)],
         Inl (HTTPException 400 ''Failed to geocode restaurant address''))
      \<and> (\<forall>df. ModelPredict df \<notin> set (fst (predict_with_addresses E request))))
   \<and> (\<forall>rest_coords.
        snd (geocode_address E (restaurant_address request) (opencage_api_key request))
          = Inr (Some rest_coords)
        \<and> snd (geocode_address E (delivery_address request) (opencage_api_key request))
          = Inr None
        \<longrightarrow>
        predict_with_addresses E request =
          ([HttpGet (restaurant_address request) (opencage_api_key request),
            HttpGet (delivery_address request) (opencage_api_key request)],
           Inl (HTTPException 400 ''Failed to geocode delivery address''))
        \<and> (\<forall>df. ModelPredict df \<notin> set (fst (predict_with_addresses E request))))
   \<and> (\<forall>rest_coords del_coords.
        snd (geocode_address E (restaurant_address request) (opencage_api_key request))
          = Inr (Some rest_coords)
        \<and> snd (geocode_address E (delivery_address request) (opencage_api_key request))
          = Inr (Some del_coords)
        \<and> DeliveryRequest_valid (coord_request request rest_coords del_coords)
        \<longrightarrow>
        predict_with_addresses E request =
          ([HttpGet (restaurant_address request) (opencage_api_key request),
            HttpGet (delivery_address request) (opencage_api_key request)]
           @ fst (predict_delivery_time E (coord_request request rest_coords del_coords)),
           (case snd (predict_delivery_time E (coord_request request rest_coords del_coords)) of
              Inl e \<Rightarrow> Inl e
            | Inr result \<Rightarrow>
                Inr (result\<lparr>geocoded_coordinates :=
                       Some \<lparr>restaurant = rest_coords, delivery = del_coords\<rparr>\<rparr>)))
        \<and> restaurant_latitude (coord_request request rest_coords del_coords)
            = latitude rest_coords
        \<and> restaurant_longitude (coord_request request rest_coords del_coords)
            = longitude rest_coords
        \<and> delivery_latitude (coord_request request rest_coords del_coords)
            = latitude del_coords
        \<and> delivery_longitude (coord_request request rest_coords del_coords)
            = longitude del_coords
        \<and> order_context.truncate (coord_request request rest_coords del_coords)
            = order_context.truncate request)"
proof -
  have a: "predict_with_addresses E request =
        ([HttpGet (restaurant_address request) (opencage_api_key request)],
         Inl (HTTPException 400 ''Failed to geocode restaurant address''))
      \<and> (\<forall>df. ModelPredict df \<notin> set (fst (predict_with_addresses E request)))"
    if "snd (geocode_address E (restaurant_address request) (opencage_api_key request))
          = Inr None"
    using predict_with_addresses_restaurant_not_found [OF that] by simp
  have b: "predict_with_addresses E request =
          ([HttpGet (restaurant_address request) (opencage_api_key request),
            HttpGet (delivery_address request) (opencage_api_key request)],
           Inl (HTTPException 400 ''Failed to geocode delivery address''))
        \<and> (\<forall>df. ModelPredict df \<notin> set (fst (predict_with_addresses E request)))"
    if "snd (geocode_address E (restaurant_address request) (opencage_api_key request))
          = Inr (Some rest_coords)"
      and "snd (geocode_address E (delivery_address request) (opencage_api_key request))
          = Inr None"
    for rest_coords
    using predict_with_addresses_delivery_not_found [OF that] by simp
  have c: "predict_with_addresses E request =
          ([HttpGet (restaurant_address request) (opencage_api_key request),
            HttpGet (delivery_address request) (opencage_api_key request)]
           @ fst (predict_delivery_time E (coord_request request rest_coords del_coords)),
           (case snd (predict_delivery_time E (coord_request request rest_coords del_coords)) of
              Inl e \<Rightarrow> Inl e
            | Inr result \<Rightarrow>
                Inr (result\<lparr>geocoded_coordinates :=
                       Some \<lparr>restaurant = rest_coords, delivery = del_coords\<rparr>\<rparr>)))"
    if "snd (geocode_address E (restaurant_address request) (opencage_api_key request))
          = Inr (Some rest_coords)"
      and "snd (geocode_address E (delivery_address request) (opencage_api_key request))
          = Inr (Some del_coords)"
      and "DeliveryRequest_valid (coord_request request rest_coords del_coords)"
    for rest_coords del_coords
    using that by (rule predict_with_addresses_delegates)
  from a b c coord_request_fields [of request] show ?thesis by blast
qed

theorem predict_with_addresses_geocodes_then_delegates_witness:
  "predict_with_addresses sample_env sample_address_request
     = ([HttpGet ''Restaurant'' ''key'', HttpGet ''Customer'' ''key'', ModelPredict sample_frame],
        Inr (sample_response\<lparr>geocoded_coordinates :=
               Some \<lparr>restaurant = \<lparr>latitude = 22.745049, longitude = 75.892471\<rparr>,
                     delivery = \<lparr>latitude = 22.765049, longitude = 75.892471\<rparr>\<rparr>\<rparr>))
   \<and> predict_with_addresses sample_env (sample_address_request\<lparr>restaurant_address := ''Nowhere''\<rparr>)
       = ([HttpGet ''Nowhere'' ''key''],
          Inl (HTTPException 400 ''Failed to geocode restaurant address''))
   \<and> predict_with_addresses sample_env (sample_address_request\<lparr>delivery_address := ''Nowhere''\<rparr>)
       = ([HttpGet ''Restaurant'' ''key'', HttpGet ''Nowhere'' ''key''],
          Inl (HTTPException 400 ''Failed to geocode delivery address''))"
proof -
  define rc where "rc = \<lparr>latitude = 22.745049 :: real, longitude = 75.892471 :: real\<rparr>"
  define dc where "dc = \<lparr>latitude = 22.765049 :: real, longitude = 75.892471 :: real\<rparr>"
  have f: "restaurant_address sample_address_request = ''Restaurant''"
    "delivery_address sample_address_request = ''Customer''"
    "opencage_api_key sample_address_request = ''key''"
    by (simp_all add: sample_address_request_def)
  have g1: "snd (geocode_address sample_env (restaurant_address sample_address_request)
                   (opencage_api_key sample_address_request)) = Inr (Some rc)"
    by (simp add: f sample_geocode_restaurant rc_def)
  have g2: "snd (geocode_address sample_env (delivery_address sample_address_request)
                   (opencage_api_key sample_address_request)) = Inr (Some dc)"
    by (simp add: f sample_geocode_customer dc_def)
  have cr: "coord_request sample_address_request rc dc = sample_request"
    unfolding rc_def dc_def by (rule sample_coord_request)
  have v: "DeliveryRequest_valid (coord_request sample_address_request rc dc)"
    by (simp add: cr sample_valid)
  from predict_with_addresses_geocodes_then_delegates [of sample_env sample_address_request]
    g1 g2 v
  have "predict_with_addresses sample_env sample_address_request =
          ([HttpGet (restaurant_address sample_address_request)
              (opencage_api_key sample_address_request),
            HttpGet (delivery_address sample_address_request)
              (opencage_api_key sample_address_request)]
           @ fst (predict_delivery_time sample_env (coord_request sample_address_request rc dc)),
           (case snd (predict_delivery_time sample_env
                        (coord_request sample_address_request rc dc)) of
              Inl e \<Rightarrow> Inl e
            | Inr result \<Rightarrow>
                Inr (result\<lparr>geocoded_coordinates := Some \<lparr>restaurant = rc, delivery = dc\<rparr>\<rparr>)))"
    by blast
  then have 1: "predict_with_addresses sample_env sample_address_request
     = ([HttpGet ''Restaurant'' ''key'', HttpGet ''Customer'' ''key'', ModelPredict sample_frame],
        Inr (sample_response\<lparr>geocoded_coordinates := Some \<lparr>restaurant = rc, delivery = dc\<rparr>\<rparr>))"
    by (simp add: cr f sample_predict)
  let ?r2 = "sample_address_request\<lparr>restaurant_address := ''Nowhere''\<rparr>"
  have "snd (geocode_address sample_env (restaurant_address ?r2) (opencage_api_key ?r2)) = Inr None"
    by (simp add: f sample_geocode_nowhere)
  with predict_with_addresses_geocodes_then_delegates [of sample_env ?r2]
  have 2: "predict_with_addresses sample_env ?r2
       = ([HttpGet ''Nowhere'' ''key''],
          Inl (HTTPException 400 ''Failed to geocode restaurant address''))"
    by (simp add: f)
  let ?r3 = "sample_address_request\<lparr>delivery_address := ''Nowhere''\<rparr>"
  have "snd (geocode_address sample_env (restaurant_address ?r3) (opencage_api_key ?r3))
          = Inr (Some rc)"
    "snd (geocode_address sample_env (delivery_address ?r3) (opencage_api_key ?r3)) = Inr None"
    by (simp_all add: f sample_geocode_restaurant sample_geocode_nowhere rc_def)
  with predict_with_addresses_geocodes_then_delegates [of sample_env ?r3]
  have 3: "predict_with_addresses sample_env ?r3
       = ([HttpGet ''Restaurant'' ''key'', HttpGet ''Nowhere'' ''key''],
          Inl (HTTPException 400 ''Failed to geocode delivery address''))"
    by (simp add: f)
  from 1 2 3 show ?thesis
    unfolding rc_def dc_def by blast
qed

text \<open>
  C7: the distance is symmetric in its two points, and the distance from a point to
  itself is 0 (a value, not an exception).
\<close>

theorem calculate_distance_symmetric_and_zero:
  "calculate_distance lat1 lon1 lat2 lon2 = calculate_distance lat2 lon2 lat1 lon1
   \<and> calculate_distance lat1 lon1 lat1 lon1 = Inr 0"
  by (simp add: calculate_distance_def haversine_a_sym [of lat1 lon1 lat2 lon2]
      haversine_a_same py_sqrt_def atan2_def py_round_zero)

end
